theory Spec2Isabelle
  imports Complex_Main "HOL-Library.Product_Lexorder" "HOL-Library.Char_ord"
    "HOL-Library.List_Lexorder"
begin

section \<open>Python values and errors\<close>

text \<open>
  The analyser is Python. Its floats are modelled as the real numbers, its dictionaries as
  association lists in insertion order (Python dictionaries iterate in insertion order, and
  several outputs depend on it), and every exception it can raise as a value of \<open>error\<close>.
  Arithmetic on the reals is exact: where the rounding of a float operation decides a
  comparison (such as \<open>0.4 - 0.05\<close> against \<open>0.35\<close>), the code and the model can
  differ, and no result below rests on such a comparison. A character is a code point
  below 256.

  A month key is the text that \<open>strftime("%Y-%m")\<close> prints, and is kept as text: the C
  library prints a year below 1000 without padding (\<open>999-02\<close>), while \<open>strptime\<close> reads
  a year of exactly four digits. A week key \<open>f"{iso_year}-W{iso_week:02d}"\<close> is read back
  with \<open>int\<close>, which inverts the formatting, and is modelled by the pair of numbers it
  prints.
\<close>

datatype error =
    UnsupportedCurrency
  | MissingTimestamp
  | InvalidTimestamp
  | InvalidAmount
  | InvalidField
  | MixedTimezones
  | DateOutOfRange
  | BadReference
  | KeyError
  | TypeError
  | OverflowError

type_synonym month_key = string
type_synonym week_key = "nat \<times> nat"

text \<open>
  The values a caller's transaction mapping can hold (the JSON values). A raw transaction
  is a dictionary from field names to such values; a key that is absent maps to \<open>None\<close>.
\<close>

datatype pyval = PNone | PBool bool | PInt int | PFloat real | PStr string

type_synonym rawtx = "string \<rightharpoonup> pyval"

fun py_truthy :: "pyval \<Rightarrow> bool" where
  "py_truthy PNone = False"
| "py_truthy (PBool b) = b"
| "py_truthy (PInt i) = (i \<noteq> 0)"
| "py_truthy (PFloat x) = (x \<noteq> 0)"
| "py_truthy (PStr s) = (s \<noteq> [])"

definition py_lower_char :: "char \<Rightarrow> char" where
  \<comment> \<open>the letters A to Z, and the upper-case letters U+00C0 to U+00DE (without the
      multiplication sign U+00D7), are 32 below their lower-case forms\<close>
  "py_lower_char c =
     (case map_of (zip ''ABCDEFGHIJKLMNOPQRSTUVWXYZ'' ''abcdefghijklmnopqrstuvwxyz'') c of
        Some l \<Rightarrow> l
      | None \<Rightarrow>
          (let n = (of_char c :: nat)
           in if 192 \<le> n \<and> n \<le> 222 \<and> n \<noteq> 215 then char_of (n + 32) else c))"

definition py_lower :: "string \<Rightarrow> string" where
  \<comment> \<open>\<open>str.lower()\<close>\<close>
  "py_lower s = map py_lower_char s"

definition py_isspace :: "char \<Rightarrow> bool" where
  \<comment> \<open>\<open>str.isspace\<close> of one character: U+0009 to U+000D, U+001C to U+0020, U+0085, U+00A0\<close>
  "py_isspace c =
     (let n = (of_char c :: nat)
      in ((9 \<le> n \<and> n \<le> 13) \<or> (28 \<le> n \<and> n \<le> 32)) \<or> (n = 133 \<or> n = 160))"

definition py_strip :: "string \<Rightarrow> string" where
  \<comment> \<open>\<open>str.strip()\<close>: whitespace removed at both ends.\<close>
  "py_strip s = rev (dropWhile py_isspace (rev (dropWhile py_isspace s)))"

definition py_round :: "real \<Rightarrow> int" where
  \<comment> \<open>\<open>round(x)\<close>: to the nearest integer, a tie to the even one.\<close>
  "py_round x =
     (let f = \<lfloor>x\<rfloor>; d = x - of_int f
      in if d < 1 / 2 then f else if 1 / 2 < d then f + 1 else if even f then f else f + 1)"

definition py_round2 :: "real \<Rightarrow> real" where
  \<comment> \<open>\<open>round(x, 2)\<close>.\<close>
  "py_round2 x = of_int (py_round (x * 100)) / 100"

text \<open>
  Dictionaries that the code fills with \<open>d[k] += v\<close> on a \<open>defaultdict\<close>, or with
  \<open>d[k] = v\<close>: an existing key keeps its position, a new key goes to the end.
\<close>

fun upd_default :: "'k \<Rightarrow> 'v \<Rightarrow> ('v \<Rightarrow> 'v) \<Rightarrow> ('k \<times> 'v) list \<Rightarrow> ('k \<times> 'v) list" where
  "upd_default k d f [] = [(k, f d)]"
| "upd_default k d f (kv # kvs) =
     (if fst kv = k then (k, f (snd kv)) # kvs else kv # upd_default k d f kvs)"

definition dict_set :: "'k \<Rightarrow> 'v \<Rightarrow> ('k \<times> 'v) list \<Rightarrow> ('k \<times> 'v) list" where
  "dict_set k v d = upd_default k v (\<lambda>_. v) d"

definition dict_get :: "('k \<times> 'v) list \<Rightarrow> 'k \<Rightarrow> 'v \<Rightarrow> 'v" where
  \<comment> \<open>\<open>d.get(k, default)\<close>\<close>
  "dict_get d k dflt = (case map_of d k of None \<Rightarrow> dflt | Some v \<Rightarrow> v)"

section \<open>Calendar helpers\<close>

text \<open>
  The proleptic Gregorian calendar of Python's \<open>datetime\<close> module: ordinals count days
  from 0001-01-01 (ordinal 1, a Monday), and the ISO calendar is computed from them as
  the standard library does.
\<close>

type_synonym date = "nat \<times> nat \<times> nat"

record datetime =
  dt_year :: nat
  dt_month :: nat
  dt_day :: nat
  dt_hour :: nat
  dt_minute :: nat
  dt_second :: nat
  dt_micro :: nat
  dt_utcoffset :: "int option"

definition is_leap :: "nat \<Rightarrow> bool" where
  "is_leap y = (y mod 4 = 0 \<and> (y mod 100 \<noteq> 0 \<or> y mod 400 = 0))"

definition days_in_month :: "nat \<Rightarrow> nat \<Rightarrow> nat" where
  "days_in_month y m =
     (if m = 2 then (if is_leap y then 29 else 28)
      else if m = 4 \<or> m = 6 \<or> m = 9 \<or> m = 11 then 30 else 31)"

definition days_before_year :: "nat \<Rightarrow> int" where
  "days_before_year y =
     (let y1 = int y - 1 in y1 * 365 + y1 div 4 - y1 div 100 + y1 div 400)"

definition days_before_month :: "nat \<Rightarrow> nat \<Rightarrow> int" where
  "days_before_month y m =
     [0, 0, 31, 59, 90, 120, 151, 181, 212, 243, 273, 304, 334] ! m
       + (if 2 < m \<and> is_leap y then 1 else 0)"

definition ymd2ord :: "nat \<Rightarrow> nat \<Rightarrow> nat \<Rightarrow> int" where
  "ymd2ord y m d = days_before_year y + days_before_month y m + int d"

definition date_ord :: "date \<Rightarrow> int" where
  \<comment> \<open>\<open>date.toordinal()\<close>\<close>
  "date_ord d = (case d of (y, m, dd) \<Rightarrow> ymd2ord y m dd)"

definition ord2ymd :: "int \<Rightarrow> date" where
  \<comment> \<open>\<open>date.fromordinal\<close>, following the library's 400/100/4/1-year cycles.\<close>
  "ord2ymd n0 =
     (let n = n0 - 1;
          n400 = n div 146097; n = n mod 146097;
          n100 = n div 36524; n = n mod 36524;
          n4 = n div 1461; n = n mod 1461;
          n1 = n div 365; n = n mod 365;
          year = n400 * 400 + 1 + n100 * 100 + n4 * 4 + n1
      in if n1 = 4 \<or> n100 = 4 then (nat (year - 1), 12, 31)
         else
           let leapyear = (n1 = 3 \<and> (n4 \<noteq> 24 \<or> n100 = 3));
               month = nat ((n + 50) div 32);
               preceding = days_before_month (nat year) month;
               month' = (if n < preceding then month - 1 else month);
               preceding' = (if n < preceding then days_before_month (nat year) month' else preceding)
           in (nat year, month', nat (n - preceding' + 1)))"

definition dt_date :: "datetime \<Rightarrow> date" where
  \<comment> \<open>\<open>dt.date()\<close>\<close>
  "dt_date d = (dt_year d, dt_month d, dt_day d)"

definition dt_ord :: "datetime \<Rightarrow> int" where
  "dt_ord d = ymd2ord (dt_year d) (dt_month d) (dt_day d)"

definition dt_weekday :: "datetime \<Rightarrow> nat" where
  \<comment> \<open>\<open>dt.weekday()\<close>: Monday is 0.\<close>
  "dt_weekday d = nat ((dt_ord d + 6) mod 7)"

definition isoweek1monday :: "nat \<Rightarrow> int" where
  "isoweek1monday year =
     (let firstday = ymd2ord year 1 1;
          firstweekday = (firstday + 6) mod 7;
          week1monday = firstday - firstweekday
      in if 3 < firstweekday then week1monday + 7 else week1monday)"

definition isocalendar :: "datetime \<Rightarrow> nat \<times> nat \<times> nat" where
  \<comment> \<open>\<open>dt.isocalendar()\<close>: ISO year, ISO week, ISO weekday.\<close>
  "isocalendar d =
     (let year = dt_year d;
          today = dt_ord d;
          wk = (today - isoweek1monday year) div 7;
          dy = (today - isoweek1monday year) mod 7
      in if wk < 0 then
           (let wk' = (today - isoweek1monday (year - 1)) div 7;
                dy' = (today - isoweek1monday (year - 1)) mod 7
            in (year - 1, nat (wk' + 1), nat (dy' + 1)))
         else if 52 \<le> wk \<and> isoweek1monday (year + 1) \<le> today then (year + 1, 1, nat (dy + 1))
         else (year, nat (wk + 1), nat (dy + 1)))"

definition dt_local_us :: "datetime \<Rightarrow> int" where
  \<comment> \<open>microseconds of the wall-clock fields since 0001-01-01T00:00:00\<close>
  "dt_local_us d =
     ((((dt_ord d - 1) * 24 + int (dt_hour d)) * 60 + int (dt_minute d)) * 60
        + int (dt_second d)) * 1000000 + int (dt_micro d)"

definition dt_instant :: "datetime \<Rightarrow> int" where
  \<comment> \<open>what comparisons and differences of two datetimes of the same awareness use\<close>
  "dt_instant d = dt_local_us d - (case dt_utcoffset d of None \<Rightarrow> 0 | Some off \<Rightarrow> off)"

definition tz_consistent :: "datetime list \<Rightarrow> bool" where
  \<comment> \<open>comparing a naive with an aware datetime raises \<open>TypeError\<close>\<close>
  "tz_consistent ds =
     (case ds of [] \<Rightarrow> True
      | d # rest \<Rightarrow> list_all (\<lambda>d'. (dt_utcoffset d' = None) = (dt_utcoffset d = None)) rest)"

definition max_dt :: "datetime list \<Rightarrow> error + datetime" where
  \<comment> \<open>\<open>max(...)\<close> over a non-empty sequence of datetimes: the first of the latest ones\<close>
  "max_dt ds =
     (case ds of [] \<Rightarrow> Inl InvalidField
      | d # rest \<Rightarrow>
          if tz_consistent ds
          then Inr (fold (\<lambda>x m. if dt_instant m < dt_instant x then x else m) rest d)
          else Inl MixedTimezones)"

definition us_per_day :: int where
  "us_per_day = 86400000000"

definition dt_minus_days :: "datetime \<Rightarrow> nat \<Rightarrow> error + int" where
  \<comment> \<open>the instant of \<open>dt - timedelta(days=n)\<close>; \<open>OverflowError\<close> before year 1\<close>
  "dt_minus_days d n =
     (if dt_local_us d - int n * us_per_day < 0 then Inl DateOutOfRange
      else Inr (dt_instant d - int n * us_per_day))"

definition start_of_week :: "datetime \<Rightarrow> date" where
  "start_of_week d = ord2ymd (dt_ord d - int (dt_weekday d))"

definition time_of_day_bucket :: "nat \<Rightarrow> string" where
  "time_of_day_bucket hour =
     (if 6 \<le> hour \<and> hour \<le> 11 then ''morning''
      else if 12 \<le> hour \<and> hour \<le> 17 then ''afternoon''
      else if 18 \<le> hour \<and> hour \<le> 22 then ''evening''
      else ''late'')"

definition fmt_digit :: "nat \<Rightarrow> char" where
  "fmt_digit n = ''0123456789'' ! (n mod 10)"

definition digit_of :: "char \<Rightarrow> nat option" where
  "digit_of c = map_of (zip ''0123456789'' [0, 1, 2, 3, 4, 5, 6, 7, 8, 9]) c"

fun num_of :: "string \<Rightarrow> nat \<Rightarrow> nat option" where
  \<comment> \<open>the number a string of decimal digits denotes, continuing from \<open>acc\<close>\<close>
  "num_of [] acc = Some acc"
| "num_of (c # cs) acc =
     (case digit_of c of None \<Rightarrow> None | Some d \<Rightarrow> num_of cs (10 * acc + d))"

definition strftime_ym :: "nat \<Rightarrow> nat \<Rightarrow> month_key" where
  \<comment> \<open>\<open>strftime("%Y-%m")\<close> of a date in year \<open>y\<close> (1..9999), month \<open>m\<close>: the year as the
      C library prints it, without padding, and the month in two digits\<close>
  "strftime_ym y m =
     (if y < 10 then [fmt_digit y]
      else if y < 100 then [fmt_digit (y div 10), fmt_digit y]
      else if y < 1000 then [fmt_digit (y div 100), fmt_digit (y div 10), fmt_digit y]
      else [fmt_digit (y div 1000), fmt_digit (y div 100), fmt_digit (y div 10), fmt_digit y])
     @ [CHR ''-'', fmt_digit (m div 10), fmt_digit m]"

definition strptime_ym :: "month_key \<Rightarrow> error + nat \<times> nat" where
  \<comment> \<open>\<open>datetime.strptime(m, "%Y-%m")\<close>: four digits of a year in 1..9999, a hyphen, and a
      month 1..12 in one or two digits; \<open>ValueError\<close> on any other text\<close>
  "strptime_ym s =
     (if (length s = 6 \<or> length s = 7) \<and> s ! 4 = CHR ''-'' then
        (case (num_of (take 4 s) 0, num_of (drop 5 s) 0) of
           (Some y, Some m) \<Rightarrow>
             if 1 \<le> y \<and> 1 \<le> m \<and> m \<le> 12 then Inr (y, m) else Inl DateOutOfRange
         | _ \<Rightarrow> Inl DateOutOfRange)
      else Inl DateOutOfRange)"

fun split_dash :: "string \<Rightarrow> string list" where
  \<comment> \<open>\<open>s.split("-")\<close>\<close>
  "split_dash [] = [[]]"
| "split_dash (c # cs) =
     (if c = CHR ''-'' then [] # split_dash cs
      else (case split_dash cs of [] \<Rightarrow> [[c]] | p # ps \<Rightarrow> (c # p) # ps))"

definition month_days :: "month_key \<Rightarrow> error + nat" where
  \<comment> \<open>the text is split at the hyphen into two numbers, read with \<open>int\<close> (here: decimal
      digits), and \<open>calendar.monthrange\<close> needs a month in 1..12\<close>
  "month_days k =
     (case split_dash k of
        [ys, ms] \<Rightarrow>
          (case (if ys = [] then None else num_of ys 0, if ms = [] then None else num_of ms 0) of
             (Some y, Some m) \<Rightarrow>
               if 1 \<le> m \<and> m \<le> 12 then Inr (days_in_month y m) else Inl DateOutOfRange
           | _ \<Rightarrow> Inl DateOutOfRange)
      | _ \<Rightarrow> Inl DateOutOfRange)"

definition add_months :: "nat \<times> nat \<Rightarrow> int \<Rightarrow> error + nat \<times> nat" where
  \<comment> \<open>on the year and month of a datetime; \<open>dt.replace(year=..., month=..., day=1)\<close>
      raises outside the years 1..9999\<close>
  "add_months d months =
     (let year = int (fst d) + ((int (snd d) - 1 + months) div 12);
          month = ((int (snd d) - 1 + months) mod 12) + 1
      in if 1 \<le> year \<and> year \<le> 9999 then Inr (nat year, nat month)
         else Inl DateOutOfRange)"

definition month_sort_key :: "month_key \<Rightarrow> nat \<times> nat" where
  \<comment> \<open>the sort key \<open>strptime\<close> gives a month text, compared as year and month\<close>
  "month_sort_key s = (case strptime_ym s of Inr k \<Rightarrow> k | Inl e \<Rightarrow> (0, 0))"

definition ordered_months :: "month_key list \<Rightarrow> error + month_key list" where
  \<comment> \<open>\<open>sorted\<close> of the set of the given texts by the date \<open>strptime\<close> reads from each;
      the set is taken in the order of first occurrence, which decides the order only of
      two texts of the same month\<close>
  "ordered_months ms =
     (if list_all (\<lambda>m. case strptime_ym m of Inr k \<Rightarrow> True | Inl e \<Rightarrow> False) ms
      then Inr (sort_key month_sort_key (remdups ms))
      else Inl DateOutOfRange)"

section \<open>Statistics helpers\<close>

text \<open>
  \<open>statistics.mean\<close>, \<open>median\<close> and \<open>stdev\<close> raise on too few data points; every call in
  the analyser is guarded by a length test, which the model keeps at the call.
\<close>

definition mean :: "real list \<Rightarrow> real" where
  "mean xs = sum_list xs / real (length xs)"

definition median :: "real list \<Rightarrow> real" where
  "median xs =
     (let s = sort xs; n = length s
      in if odd n then s ! (n div 2) else (s ! (n div 2 - 1) + s ! (n div 2)) / 2)"

definition stdev :: "real list \<Rightarrow> real" where
  \<comment> \<open>the sample standard deviation\<close>
  "stdev xs = sqrt (sum_list (map (\<lambda>x. (x - mean xs)\<^sup>2) xs) / (real (length xs) - 1))"

definition pct_change :: "real \<Rightarrow> real \<Rightarrow> real option" where
  "pct_change cur prv = (if prv = 0 then None else Some ((cur - prv) / prv))"

definition rolling_mean :: "real list \<Rightarrow> int \<Rightarrow> error + real option list" where
  "rolling_mean series window =
     (if window \<le> 0 then Inl InvalidField
      else Inr (map (\<lambda>idx. if int idx + 1 < window then None
                            else Some (sum_list (take (nat window) (drop (idx + 1 - nat window) series))
                                       / real_of_int window))
                    [0..<length series]))"

definition linear_trend :: "real list \<Rightarrow> real" where
  "linear_trend vals =
     (let n = length vals
      in if n < 2 then 0
         else
           let x = map real [0..<n];
               x_mean = sum_list x / real n;
               y_mean = sum_list vals / real n;
               denom = sum_list (map (\<lambda>xi. (xi - x_mean)\<^sup>2) x)
           in if denom = 0 then 0
              else sum_list (map (\<lambda>i. (x ! i - x_mean) * (vals ! i - y_mean)) [0..<n]) / denom)"

definition percentile_value :: "real list \<Rightarrow> real \<Rightarrow> real" where
  "percentile_value vals q =
     (if vals = [] then 0
      else
        let ordered = sort vals
        in if length ordered = 1 then ordered ! 0
           else
             let pos = (real (length ordered) - 1) * q;
                 lower = nat \<lfloor>pos\<rfloor>;
                 upper = min (lower + 1) (length ordered - 1);
                 weight = pos - real lower
             in ordered ! lower * (1 - weight) + ordered ! upper * weight)"

definition round_to_nearest_5 :: "real \<Rightarrow> real" where
  "round_to_nearest_5 v = of_int (py_round (v / 5)) * 5"

section \<open>Configuration\<close>

definition DISPLAY_CURRENCY :: string where
  "DISPLAY_CURRENCY = ''GBP''"

definition CATEGORY_ALIASES :: "(string \<times> string) list" where
  "CATEGORY_ALIASES =
     [(''uber'', ''transport.ridehail''), (''bolt'', ''transport.ridehail''),
      (''lyft'', ''transport.ridehail''), (''tfl'', ''transport.public''),
      (''national rail'', ''transport.public''), (''tesco'', ''groceries''),
      (''sainsburys'', ''groceries''), (''sainsbury'' @ [CHR 0x27] @ ''s'', ''groceries''),
      (''waitrose'', ''groceries''), (''aldi'', ''groceries''), (''lidl'', ''groceries''),
      (''deliveroo'', ''eating_out''), (''just eat'', ''eating_out''),
      (''starbucks'', ''dining.coffee''), (''pret'', ''dining.coffee''), (''hmrc'', ''taxes''),
      (''salary'', ''income.salary'')]"

definition NECESSITY_CATEGORIES :: "string list" where
  "NECESSITY_CATEGORIES =
     [''groceries'', ''housing.rent'', ''rent'', ''utilities'', ''transport.public'', ''taxes'']"

definition SWAP_ELIGIBLE_CATEGORIES :: "string list" where
  "SWAP_ELIGIBLE_CATEGORIES = [''groceries'', ''dining.coffee'']"

definition LATE_NIGHT_CATEGORIES :: "string list" where
  "LATE_NIGHT_CATEGORIES = [''eating_out'', ''dining.delivery'']"

definition RIDEHAIL_CATEGORIES :: "string list" where
  "RIDEHAIL_CATEGORIES = [''transport.ridehail'']"

definition RENT_CATEGORIES :: "string list" where
  "RENT_CATEGORIES = [''housing.rent'', ''rent'']"

definition winsorise_percentile :: real where "winsorise_percentile = 99 / 100"
definition hhi_window_weeks :: nat where "hhi_window_weeks = 8"
definition hhi_high_threshold :: real where "hhi_high_threshold = 4 / 10"
definition small_tx_threshold :: real where "small_tx_threshold = 5"
definition small_tx_week_limit :: nat where "small_tx_week_limit = 6"
definition drip_rise_min_delta :: real where "drip_rise_min_delta = 15 / 100"
definition recurring_cv_threshold :: real where "recurring_cv_threshold = 15 / 100"
definition recurring_interval_tolerance :: real where "recurring_interval_tolerance = 2"
definition recurring_min_occurrences :: nat where "recurring_min_occurrences = 3"
definition anomaly_window_weeks :: nat where "anomaly_window_weeks = 6"
definition anomaly_z_threshold :: real where "anomaly_z_threshold = 2"
definition anomaly_week_delta :: real where "anomaly_week_delta = 30 / 100"
definition opportunity_cap_ratio :: real where "opportunity_cap_ratio = 2 / 10"
definition rising_mom_threshold :: real where "rising_mom_threshold = 10 / 100"

definition DOW_NAMES :: "string list" where
  "DOW_NAMES = [''Mon'', ''Tue'', ''Wed'', ''Thu'', ''Fri'', ''Sat'', ''Sun'']"

definition TIME_BUCKETS :: "string list" where
  "TIME_BUCKETS = [''morning'', ''afternoon'', ''evening'', ''late'']"

section \<open>Pre-processing\<close>

text \<open>
  Two library functions parse text: \<open>datetime.fromisoformat\<close> and \<open>float\<close> on a string.
  They are parameters of the model (\<open>None\<close> where the library raises), so that every
  result holds for whatever they accept.
\<close>

record pylib =
  fromisoformat :: "string \<Rightarrow> datetime option"
  float_of_str :: "string \<Rightarrow> real option"

text \<open>
  An enriched row is \<open>dict(row)\<close> updated with the derived fields: \<open>extra\<close> holds the copy
  of the caller's mapping (whose keys of the same names the derived fields shadow), and
  \<open>amount_winsorised\<close> is absent until the winsorising pass writes it.
\<close>

record row =
  extra :: rawtx
  amount :: real
  amount_abs :: real
  ts :: string
  dt :: datetime
  date :: date
  dow :: nat
  hour :: nat
  week :: nat
  week_year :: nat
  week_key :: week_key
  week_start :: date
  month :: month_key
  month_key :: month_key
  month_start :: date
  is_spend :: bool
  is_income :: bool
  category :: string
  merchant :: string
  merchant_normalised :: string
  time_bucket :: string
  iso_weekday :: nat
  amount_winsorised :: "real option"

fun py_float :: "pylib \<Rightarrow> pyval \<Rightarrow> error + real" where
  \<comment> \<open>\<open>float(v)\<close>, as the real number of the same value; an integer that rounds to no
      finite double raises \<open>OverflowError\<close>\<close>
  "py_float lib PNone = Inl InvalidAmount"
| "py_float lib (PBool b) = Inr (if b then 1 else 0)"
| "py_float lib (PInt i) =
     (if \<bar>i\<bar> < 2 ^ 1024 - 2 ^ 970 then Inr (of_int i) else Inl OverflowError)"
| "py_float lib (PFloat x) = Inr x"
| "py_float lib (PStr s) = (case float_of_str lib s of None \<Rightarrow> Inl InvalidAmount | Some x \<Rightarrow> Inr x)"

definition or_default_str :: "pyval option \<Rightarrow> string \<Rightarrow> error + string" where
  \<comment> \<open>\<open>(v or default)\<close> used as a string: a truthy value that is no string has no \<open>strip\<close>\<close>
  "or_default_str v dflt =
     (case v of None \<Rightarrow> Inr dflt
      | Some x \<Rightarrow> if \<not> py_truthy x then Inr dflt
                  else (case x of PStr s \<Rightarrow> Inr s | _ \<Rightarrow> Inl InvalidField))"

definition parse_iso_ts :: "pylib \<Rightarrow> pyval \<Rightarrow> error + datetime" where
  "parse_iso_ts lib v =
     (case v of
        PStr s \<Rightarrow>
          (let s' = (if s \<noteq> [] \<and> last s = CHR ''Z'' then butlast s @ ''+00:00'' else s)
           in case fromisoformat lib s' of None \<Rightarrow> Inl InvalidTimestamp | Some d \<Rightarrow> Inr d)
      | _ \<Rightarrow> Inl InvalidTimestamp)"

definition normalise_category :: "pyval option \<Rightarrow> error + string" where
  "normalise_category raw =
     (case or_default_str raw ''uncategorised'' of Inl e \<Rightarrow> Inl e
      | Inr s \<Rightarrow>
          let raw_norm = py_lower (py_strip s)
          in Inr (dict_get CATEGORY_ALIASES raw_norm
                    (if raw_norm \<noteq> [] then raw_norm else ''uncategorised'')))"

definition enrich :: "pylib \<Rightarrow> rawtx \<Rightarrow> error + row" where
  \<comment> \<open>the body of the loop of \<open>preprocess_transactions\<close>, for one transaction\<close>
  "enrich lib tx =
     (case py_float lib (case tx ''amount'' of None \<Rightarrow> PInt 0 | Some v \<Rightarrow> v) of Inl e \<Rightarrow> Inl e
      | Inr amt \<Rightarrow>
     let currency = (case tx ''currency'' of None \<Rightarrow> PStr DISPLAY_CURRENCY | Some c \<Rightarrow> c)
     in if currency \<noteq> PStr DISPLAY_CURRENCY then Inl UnsupportedCurrency
        else
          (case tx ''ts'' of None \<Rightarrow> Inl MissingTimestamp
           | Some tsv \<Rightarrow>
          if \<not> py_truthy tsv then Inl MissingTimestamp
          else
            (case parse_iso_ts lib tsv of Inl e \<Rightarrow> Inl e
             | Inr d \<Rightarrow>
            (case normalise_category (tx ''category'') of Inl e \<Rightarrow> Inl e
             | Inr cat \<Rightarrow>
            (case or_default_str (tx ''merchant'') ''unknown'' of Inl e \<Rightarrow> Inl e
             | Inr m0 \<Rightarrow>
               let iso = isocalendar d;
                   iso_year = fst iso;
                   iso_week = fst (snd iso);
                   merch = py_strip m0
               in Inr \<lparr>extra = tx,
                        amount = amt,
                        amount_abs = \<bar>amt\<bar>,
                        ts = (case tsv of PStr s \<Rightarrow> s | _ \<Rightarrow> []),
                        dt = d,
                        date = dt_date d,
                        dow = dt_weekday d,
                        hour = dt_hour d,
                        week = iso_week,
                        week_year = iso_year,
                        week_key = (iso_year, iso_week),
                        week_start = start_of_week d,
                        month = strftime_ym (dt_year d) (dt_month d),
                        month_key = strftime_ym (dt_year d) (dt_month d),
                        month_start = (dt_year d, dt_month d, 1),
                        is_spend = (amt < 0),
                        is_income = (0 < amt),
                        category = cat,
                        merchant = merch,
                        merchant_normalised = py_lower merch,
                        time_bucket = time_of_day_bucket (dt_hour d),
                        iso_weekday = snd (snd iso),
                        amount_winsorised = None\<rparr>)))))"

text \<open>
  The caller's mappings and the enriched rows are objects of one store, addressed by their
  index; a list of transactions is a list of addresses. \<open>dict(row)\<close> allocates a new object.
  The winsorising pass reads and writes whatever mappings the list it is given holds: an
  enriched row, or a caller's mapping, which then gets the key \<open>amount_winsorised\<close>.
\<close>

datatype pyobj = Raw rawtx | Row row

type_synonym heap = "pyobj list"

definition rows_of :: "heap \<Rightarrow> nat list \<Rightarrow> row list" where
  \<comment> \<open>the rows a list of addresses denotes\<close>
  "rows_of h as = concat (map (\<lambda>a. if a < length h then (case h ! a of Row r \<Rightarrow> [r] | Raw _ \<Rightarrow> []) else []) as)"

definition obj_is_spend :: "pyobj \<Rightarrow> bool" where
  \<comment> \<open>the truth of \<open>row.get("is_spend")\<close>\<close>
  "obj_is_spend ob =
     (case ob of Row r \<Rightarrow> is_spend r
      | Raw t \<Rightarrow> (case t ''is_spend'' of None \<Rightarrow> False | Some v \<Rightarrow> py_truthy v))"

definition obj_category :: "pyobj \<Rightarrow> error + pyval" where
  \<comment> \<open>\<open>row["category"]\<close>\<close>
  "obj_category ob =
     (case ob of Row r \<Rightarrow> Inr (PStr (category r))
      | Raw t \<Rightarrow> (case t ''category'' of None \<Rightarrow> Inl KeyError | Some v \<Rightarrow> Inr v))"

definition obj_amount :: "pyobj \<Rightarrow> error + pyval" where
  \<comment> \<open>\<open>row["amount"]\<close>\<close>
  "obj_amount ob =
     (case ob of Row r \<Rightarrow> Inr (PFloat (amount r))
      | Raw t \<Rightarrow> (case t ''amount'' of None \<Rightarrow> Inl KeyError | Some v \<Rightarrow> Inr v))"

fun py_abs :: "pyval \<Rightarrow> error + real" where
  \<comment> \<open>the value of \<open>abs(v)\<close>\<close>
  "py_abs (PInt i) = Inr \<bar>of_int i\<bar>"
| "py_abs (PFloat x) = Inr \<bar>x\<bar>"
| "py_abs (PBool b) = Inr (if b then 1 else 0)"
| "py_abs PNone = Inl TypeError"
| "py_abs (PStr s) = Inl TypeError"

fun py_neg_abs :: "pyval \<Rightarrow> pyval" where
  \<comment> \<open>\<open>-abs(v)\<close> of a number, an integer for an integer or a truth value\<close>
  "py_neg_abs (PInt i) = PInt (- \<bar>i\<bar>)"
| "py_neg_abs (PFloat x) = PFloat (- \<bar>x\<bar>)"
| "py_neg_abs (PBool b) = PInt (if b then - 1 else 0)"
| "py_neg_abs v = v"

fun py_key :: "pyval \<Rightarrow> pyval" where
  \<comment> \<open>dictionary keys: numbers and truth values of the same value are the same key\<close>
  "py_key (PInt i) = PFloat (of_int i)"
| "py_key (PBool b) = PFloat (if b then 1 else 0)"
| "py_key v = v"

fun category_values ::
  "pyobj list \<Rightarrow> (pyval \<times> real list) list \<Rightarrow> error + (pyval \<times> real list) list" where
  \<comment> \<open>the first loop of \<open>winsorise_spend_amounts\<close>, with \<open>per_category_values\<close> as
      accumulator\<close>
  "category_values [] acc = Inr acc"
| "category_values (ob # obs) acc =
     (if obj_is_spend ob then
        (case obj_category ob of Inl e \<Rightarrow> Inl e
         | Inr c \<Rightarrow>
        (case obj_amount ob of Inl e \<Rightarrow> Inl e
         | Inr a \<Rightarrow>
        (case py_abs a of Inl e \<Rightarrow> Inl e
         | Inr m \<Rightarrow> category_values obs (upd_default (py_key c) [] (\<lambda>vs. vs @ [m]) acc))))
      else category_values obs acc)"

definition clip_amount :: "(pyval \<times> real) list \<Rightarrow> row \<Rightarrow> real" where
  \<comment> \<open>the value the second loop of \<open>winsorise_spend_amounts\<close> stores for an enriched row\<close>
  "clip_amount caps r =
     (if is_spend r then - min \<bar>amount r\<bar> (dict_get caps (PStr (category r)) \<bar>amount r\<bar>)
      else amount r)"

definition clip_obj :: "(pyval \<times> real) list \<Rightarrow> pyobj \<Rightarrow> error + pyobj" where
  \<comment> \<open>the body of the second loop: the mapping with \<open>amount_winsorised\<close> written. The
      minimum of the magnitude and the cap is the magnitude itself, of the amount's own
      type, unless the cap is smaller, and a smaller cap is a float\<close>
  "clip_obj caps ob =
     (case ob of
        Row r \<Rightarrow> Inr (Row (r\<lparr>amount_winsorised := Some (clip_amount caps r)\<rparr>))
      | Raw t \<Rightarrow>
          (case t ''amount'' of
             None \<Rightarrow> Inl KeyError
           | Some amt \<Rightarrow>
               (if obj_is_spend (Raw t) then
                  (case t ''category'' of
                     None \<Rightarrow> Inl KeyError
                   | Some c \<Rightarrow>
                       (case py_abs amt of
                          Inl e \<Rightarrow> Inl e
                        | Inr m \<Rightarrow>
                            (let cap = dict_get caps (py_key c) m
                             in Inr (Raw (t(''amount_winsorised'' \<mapsto>
                                  (if m \<le> cap then py_neg_abs amt else PFloat (- cap))))))))
                else Inr (Raw (t(''amount_winsorised'' \<mapsto> amt))))))"

fun winsorise_write :: "(pyval \<times> real) list \<Rightarrow> heap \<Rightarrow> nat list \<Rightarrow> error option \<times> heap" where
  \<comment> \<open>the second loop; an exception leaves the writes made so far in the store\<close>
  "winsorise_write caps h [] = (None, h)"
| "winsorise_write caps h (a # as) =
     (if a < length h then
        (case clip_obj caps (h ! a) of
           Inl e \<Rightarrow> (Some e, h)
         | Inr ob \<Rightarrow> winsorise_write caps (h[a := ob]) as)
      else (Some BadReference, h))"

definition winsorise_spend_amounts :: "heap \<Rightarrow> nat list \<Rightarrow> real \<Rightarrow> error option \<times> heap" where
  "winsorise_spend_amounts h rows percentile =
     (if list_all (\<lambda>a. a < length h) rows then
        (case category_values (map (\<lambda>a. h ! a) rows) [] of
           Inl e \<Rightarrow> (Some e, h)
         | Inr per_category_values \<Rightarrow>
             winsorise_write
               (map (\<lambda>cv. (fst cv, percentile_value (snd cv) percentile)) per_category_values)
               h rows)
      else (Some BadReference, h))"

fun enrich_all :: "pylib \<Rightarrow> heap \<Rightarrow> nat list \<Rightarrow> nat list \<Rightarrow> (error + nat list) \<times> heap" where
  \<comment> \<open>the first loop of \<open>preprocess_transactions\<close>, with \<open>cleaned\<close> as accumulator; the
      caller's transactions are \<open>Raw\<close> objects\<close>
  "enrich_all lib h [] cleaned = (Inr cleaned, h)"
| "enrich_all lib h (a # as) cleaned =
     (if a < length h then
        (case h ! a of
           Raw tx \<Rightarrow>
             (case enrich lib tx of Inl e \<Rightarrow> (Inl e, h)
              | Inr r \<Rightarrow> enrich_all lib (h @ [Row r]) as (cleaned @ [length h]))
         | Row _ \<Rightarrow> (Inl BadReference, h))
      else (Inl BadReference, h))"

definition preprocess_transactions :: "pylib \<Rightarrow> heap \<Rightarrow> nat list \<Rightarrow> (error + nat list) \<times> heap" where
  "preprocess_transactions lib h transactions =
     (case enrich_all lib h transactions [] of
        (Inl e, h') \<Rightarrow> (Inl e, h')
      | (Inr cleaned, h') \<Rightarrow>
          (case winsorise_spend_amounts h' cleaned winsorise_percentile of
             (Some e, h'') \<Rightarrow> (Inl e, h'')
           | (None, h'') \<Rightarrow> (Inr cleaned, h'')))"

definition preprocess :: "pylib \<Rightarrow> heap \<Rightarrow> nat list \<Rightarrow> (error + nat list) \<times> heap" where
  "preprocess lib h transactions = preprocess_transactions lib h transactions"

section \<open>Monthly trends and forecast\<close>

record MonthlySeries =
  months :: "month_key list"
  series_values :: "real list"

definition dict_setdefault :: "'k \<Rightarrow> 'v \<Rightarrow> ('k \<times> 'v) list \<Rightarrow> ('k \<times> 'v) list" where
  "dict_setdefault k v d = (if k \<in> set (map fst d) then d else d @ [(k, v)])"

definition month_over_month :: "MonthlySeries \<Rightarrow> (month_key \<times> real option) list" where
  "month_over_month series =
     (let deltas =
            fold (\<lambda>idx d. dict_set (months series ! idx)
                             (pct_change (series_values series ! idx) (series_values series ! (idx - 1))) d)
                 [1..<length (months series)] []
      in if months series \<noteq> [] then dict_setdefault (months series ! 0) None deltas else deltas)"

definition compute_category_share ::
  "(month_key \<times> real) list \<Rightarrow> (string \<times> (month_key \<times> real) list) list
     \<Rightarrow> (month_key \<times> (string \<times> real) list) list" where
  "compute_category_share total_spend category_spend =
     fold (\<lambda>mt share.
             if snd mt = 0 then share
             else fold (\<lambda>cs share'.
                          let v = dict_get (snd cs) (fst mt) 0
                          in if v \<noteq> 0
                             then upd_default (fst mt) [] (dict_set (fst cs) (v / snd mt)) share'
                             else share')
                       category_spend share)
          total_spend []"

record forecast =
  fc_month :: month_key
  primary_model :: string
  primary_value :: "real option"
  backstop_model :: string
  backstop_value :: "real option"

definition forecast_next_month :: "(month_key \<times> real) list \<Rightarrow> error + forecast option" where
  "forecast_next_month monthly_spend =
     (if monthly_spend = [] then Inr None
      else
        let months = map fst monthly_spend;
            vals = map snd monthly_spend;
            last_month = last months
        in case strptime_ym last_month of Inl e \<Rightarrow> Inl e | Inr last_dt \<Rightarrow>
           (case add_months last_dt 1 of Inl e \<Rightarrow> Inl e | Inr next_dt \<Rightarrow>
           (case add_months next_dt (- 12) of Inl e \<Rightarrow> Inl e | Inr seasonal_dt \<Rightarrow>
             let next_month_key = strftime_ym (fst next_dt) (snd next_dt);
                 seasonal_key = strftime_ym (fst seasonal_dt) (snd seasonal_dt);
                 seasonal0 = map_of monthly_spend seasonal_key;
                 seasonal = (if seasonal0 = None \<and> vals \<noteq> [] then Some (last vals) else seasonal0);
                 moving_avg_value =
                   (if length vals \<ge> 3 then Some (sum_list (drop (length vals - 3) vals) / 3)
                    else None);
                 primary_model = (if seasonal \<noteq> None then ''seasonal_naive'' else ''moving_average'');
                 primary_value = (if seasonal \<noteq> None then seasonal else moving_avg_value);
                 backstop_model =
                   (if primary_model = ''seasonal_naive'' then ''moving_average'' else ''seasonal_naive'');
                 backstop_value =
                   (if primary_model = ''seasonal_naive'' then moving_avg_value else seasonal)
             in if primary_value = None \<and> backstop_value = None then Inr None
                else Inr (Some \<lparr>fc_month = next_month_key, primary_model = primary_model,
                                primary_value = primary_value, backstop_model = backstop_model,
                                backstop_value = backstop_value\<rparr>))))"


record slopes =
  total_spend :: real
  total_income :: real
  categories :: "(string \<times> real) list"

record metrics =
  monthly_spend :: "(month_key \<times> real) list"
  monthly_income :: "(month_key \<times> real) list"
  spend_moving_average :: "(month_key \<times> real option) list"
  income_moving_average :: "(month_key \<times> real option) list"
  spend_mom_pct :: "(month_key \<times> real option) list"
  income_mom_pct :: "(month_key \<times> real option) list"
  category_spend :: "(string \<times> (month_key \<times> real) list) list"
  category_share :: "(month_key \<times> (string \<times> real) list) list"
  trend_slopes :: slopes

record trends = metrics +
  forecast :: "forecast option"

definition trend_amount :: "row \<Rightarrow> real" where
  \<comment> \<open>\<open>row.get("amount_winsorised", row["amount"])\<close>\<close>
  "trend_amount r = (case amount_winsorised r of None \<Rightarrow> amount r | Some w \<Rightarrow> w)"

definition spend_totals :: "row list \<Rightarrow> (month_key \<times> real) list" where
  "spend_totals rows =
     fold (\<lambda>r acc. if is_spend r then upd_default (month_key r) 0 (\<lambda>v. v + \<bar>trend_amount r\<bar>) acc
                    else acc) rows []"

definition income_totals :: "row list \<Rightarrow> (month_key \<times> real) list" where
  "income_totals rows =
     fold (\<lambda>r acc. if is_spend r then acc
                    else if is_income r then upd_default (month_key r) 0 (\<lambda>v. v + trend_amount r) acc
                    else acc) rows []"

definition category_totals :: "row list \<Rightarrow> (string \<times> (month_key \<times> real) list) list" where
  "category_totals rows =
     fold (\<lambda>r acc. if is_spend r
                    then upd_default (category r) []
                           (upd_default (month_key r) 0 (\<lambda>v. v + \<bar>trend_amount r\<bar>)) acc
                    else acc) rows []"

definition compute_monthly_trends :: "row list \<Rightarrow> error + metrics" where
  "compute_monthly_trends rows =
     (case ordered_months (map fst (spend_totals rows) @ map fst (income_totals rows)) of
        Inl e \<Rightarrow> Inl e
      | Inr ms \<Rightarrow>
          let m_spend = map (\<lambda>m. (m, dict_get (spend_totals rows) m 0)) ms;
              m_income = map (\<lambda>m. (m, dict_get (income_totals rows) m 0)) ms;
              spend_series = \<lparr>months = map fst m_spend, series_values = map snd m_spend\<rparr>;
              income_series = \<lparr>months = map fst m_income, series_values = map snd m_income\<rparr>
          in (case rolling_mean (series_values spend_series) 3 of Inl e \<Rightarrow> Inl e
              | Inr s_avg \<Rightarrow>
             (case rolling_mean (series_values income_series) 3 of Inl e \<Rightarrow> Inl e
              | Inr i_avg \<Rightarrow>
                let c_spend = map (\<lambda>cm. (fst cm, map (\<lambda>m. (m, dict_get (snd cm) m 0)) ms))
                                  (category_totals rows)
                in Inr \<lparr>monthly_spend = m_spend,
                         monthly_income = m_income,
                         spend_moving_average = zip (months spend_series) s_avg,
                         income_moving_average = zip (months income_series) i_avg,
                         spend_mom_pct = month_over_month spend_series,
                         income_mom_pct = month_over_month income_series,
                         category_spend = c_spend,
                         category_share = compute_category_share m_spend c_spend,
                         trend_slopes =
                           \<lparr>total_spend = linear_trend (series_values spend_series),
                            total_income = linear_trend (series_values income_series),
                            categories = map (\<lambda>cs. (fst cs, linear_trend (map snd (snd cs)))) c_spend\<rparr>\<rparr>)))"

definition monthly_trends :: "row list \<Rightarrow> error + trends" where
  "monthly_trends rows =
     (case compute_monthly_trends rows of Inl e \<Rightarrow> Inl e
      | Inr m \<Rightarrow>
          (case forecast_next_month (monthly_spend m) of Inl e \<Rightarrow> Inl e
           | Inr f \<Rightarrow> Inr (metrics.extend m (trends.fields f))))"

section \<open>Pattern mining\<close>

record hhi_detail =
  hhi :: real
  top_merchant :: string
  top_share :: real
  hhi_total :: real

record leak =
  leak_week :: week_key
  leak_count :: nat
  avg_amount :: real
  leak_total :: real
  rising :: bool

record squeeze =
  squeeze_week :: week_key
  net :: real
  following_week :: week_key

record cashflow =
  weekly_net :: "(week_key \<times> real) list"
  squeezes :: "squeeze list"

record late_stats =
  late_share :: real
  late_amount :: real

record ridehail =
  ridehail_month :: month_key
  trip_count :: nat
  ridehail_spend :: real
  avg_ticket :: real

record patterns =
  dow_peaks :: "(string \<times> string list) list"
  time_buckets :: "(string \<times> (string \<times> real) list) list"
  merchant_hhi :: "(string \<times> real) list"
  merchant_hhi_details :: "(string \<times> hhi_detail) list"
  small_leaks :: "leak list"
  cashflow :: cashflow
  late_night :: "(string \<times> late_stats) list"
  ridehail_usage :: "ridehail option"
  category_30d_spend :: "(string \<times> real) list"

definition max_list :: "real list \<Rightarrow> real" where
  \<comment> \<open>\<open>max(xs)\<close> of a non-empty list\<close>
  "max_list xs = fold max (tl xs) (hd xs)"

definition max_by_snd :: "'a \<times> real \<Rightarrow> ('a \<times> real) list \<Rightarrow> 'a \<times> real" where
  \<comment> \<open>\<open>max(items, key=lambda item: item[1])\<close>: the first of the largest\<close>
  "max_by_snd x xs = fold (\<lambda>y m. if snd m < snd y then y else m) xs x"

definition compute_small_leaks_table :: "row list \<Rightarrow> (week_key \<times> nat \<times> real) list" where
  "compute_small_leaks_table spend_rows =
     fold (\<lambda>r acc. if \<bar>amount r\<bar> < small_tx_threshold \<and> category r \<notin> set NECESSITY_CATEGORIES
                    then upd_default (week_key r) (0, 0)
                           (\<lambda>e. (fst e + 1, snd e + \<bar>amount r\<bar>)) acc
                    else acc) spend_rows []"

fun leak_scan :: "(week_key \<times> nat \<times> real) list \<Rightarrow> week_key list \<Rightarrow> nat option \<Rightarrow> leak list" where
  "leak_scan leaks [] prev_count = []"
| "leak_scan leaks (w # ws) prev_count =
     (let entry = dict_get leaks w (0, 0);
          cnt = fst entry;
          avg = (if cnt \<noteq> 0 then snd entry / real cnt else 0);
          rise = (case prev_count of None \<Rightarrow> False
                  | Some p \<Rightarrow> if 0 < p then real p * (1 + drip_rise_min_delta) < real cnt else False)
      in (if small_tx_week_limit < cnt
          then [\<lparr>leak_week = w, leak_count = cnt, avg_amount = avg, leak_total = snd entry,
                  rising = rise\<rparr>]
          else []) @ leak_scan leaks ws (Some cnt))"

definition compute_small_leaks :: "row list \<Rightarrow> leak list" where
  "compute_small_leaks spend_rows =
     (let leaks = compute_small_leaks_table spend_rows
      in leak_scan leaks (sort (map fst leaks)) None)"

definition compute_cashflow :: "row list \<Rightarrow> cashflow" where
  "compute_cashflow rows =
     (let wn = fold (\<lambda>r acc. upd_default (week_key r) 0 (\<lambda>v. v + amount r) acc) rows [];
          ordered_weeks = sort (map fst wn);
          ordered = map (\<lambda>w. (w, dict_get wn w 0)) ordered_weeks
      in \<lparr>weekly_net = ordered,
          squeezes =
            concat (map (\<lambda>idx.
                           let curr_key = ordered_weeks ! idx; next_key = ordered_weeks ! (idx + 1)
                           in if dict_get ordered curr_key 0 < 0 \<and> 0 < dict_get ordered next_key 0
                              then [\<lparr>squeeze_week = curr_key, net = dict_get ordered curr_key 0,
                                      following_week = next_key\<rparr>]
                              else [])
                        [0..<length ordered_weeks - 1])\<rparr>)"

definition compute_ridehail_usage :: "row list \<Rightarrow> ridehail option" where
  \<comment> \<open>\<open>None\<close> stands for the empty dictionary\<close>
  "compute_ridehail_usage spend_rows =
     (let ridehail_rows = filter (\<lambda>r. category r \<in> set RIDEHAIL_CATEGORIES) spend_rows
      in if ridehail_rows = [] then None
         else
           let current_month = fold max (map month_key (tl ridehail_rows)) (month_key (hd ridehail_rows));
               current_rows = filter (\<lambda>r. month_key r = current_month) ridehail_rows;
               cnt = length current_rows;
               spend = sum_list (map (\<lambda>r. \<bar>amount r\<bar>) current_rows)
           in Some \<lparr>ridehail_month = current_month, trip_count = cnt, ridehail_spend = spend,
                     avg_ticket = (if cnt \<noteq> 0 then spend / real cnt else 0)\<rparr>)"

definition dow_peaks_of :: "(nat \<times> real) list \<Rightarrow> real \<Rightarrow> string list" where
  "dow_peaks_of dows tot =
     (let dow_shares = map (\<lambda>dv. (DOW_NAMES ! fst dv, snd dv / tot)) dows
      in if dow_shares = [] then []
         else
           let max_share = max_list (map snd dow_shares)
           in map fst (filter (\<lambda>ds. max_share - 5 / 100 \<le> snd ds \<and> 2 / 10 \<le> snd ds) dow_shares))"

definition bucket_shares_of :: "(string \<times> real) list \<Rightarrow> real \<Rightarrow> (string \<times> real) list" where
  "bucket_shares_of bucket_totals tot = map (\<lambda>b. (b, dict_get bucket_totals b 0 / tot)) TIME_BUCKETS"

fun hhi_scan ::
  "(string \<times> (string \<times> real) list) list
     \<Rightarrow> error + ((string \<times> real) list \<times> (string \<times> hhi_detail) list)" where
  "hhi_scan [] = Inr ([], [])"
| "hhi_scan (cm # rest) =
     (let tot = sum_list (map snd (snd cm))
      in if tot = 0 then hhi_scan rest
         else
           (case map (\<lambda>mv. (fst mv, snd mv / tot)) (filter (\<lambda>mv. snd mv \<noteq> 0) (snd cm)) of
              [] \<Rightarrow> Inl InvalidField
            | sh # shs \<Rightarrow>
                (case hhi_scan rest of Inl e \<Rightarrow> Inl e
                 | Inr res \<Rightarrow>
                     let h = sum_list (map (\<lambda>x. (snd x)\<^sup>2) (sh # shs));
                         top = max_by_snd sh shs
                     in Inr ((fst cm, h) # fst res,
                             (fst cm, \<lparr>hhi = h, top_merchant = fst top, top_share = snd top,
                                       hhi_total = tot\<rparr>) # snd res))))"

definition empty_patterns :: patterns where
  "empty_patterns =
     \<lparr>dow_peaks = [], time_buckets = [], merchant_hhi = [], merchant_hhi_details = [],
      small_leaks = [], cashflow = \<lparr>weekly_net = [], squeezes = []\<rparr>, late_night = [],
      ridehail_usage = None, category_30d_spend = []\<rparr>"

definition pattern_mining :: "row list \<Rightarrow> error + patterns" where
  "pattern_mining rows =
     (let spend_rows = filter is_spend rows
      in if spend_rows = [] then Inr empty_patterns
         else
           (case max_dt (map dt rows) of Inl e \<Rightarrow> Inl e
            | Inr latest_dt \<Rightarrow>
           (case dt_minus_days latest_dt (7 * hhi_window_weeks) of Inl e \<Rightarrow> Inl e
            | Inr cutoff_8w \<Rightarrow>
           (case dt_minus_days latest_dt 30 of Inl e \<Rightarrow> Inl e
            | Inr cutoff_30d \<Rightarrow>
              let cat_totals =
                    fold (\<lambda>r. upd_default (category r) 0 (\<lambda>v. v + \<bar>amount r\<bar>)) spend_rows [];
                  category_dow =
                    fold (\<lambda>r. upd_default (category r) []
                                 (upd_default (dow r) 0 (\<lambda>v. v + \<bar>amount r\<bar>))) spend_rows [];
                  category_time =
                    fold (\<lambda>r. upd_default (category r) []
                                 (upd_default (time_bucket r) 0 (\<lambda>v. v + \<bar>amount r\<bar>))) spend_rows [];
                  merchant_window =
                    fold (\<lambda>r acc. if cutoff_8w \<le> dt_instant (dt r)
                                   then upd_default (category r) []
                                          (upd_default (merchant_normalised r) 0 (\<lambda>v. v + \<bar>amount r\<bar>)) acc
                                   else acc) spend_rows [];
                  c30 =
                    fold (\<lambda>r acc. if cutoff_30d \<le> dt_instant (dt r)
                                   then upd_default (category r) 0 (\<lambda>v. v + \<bar>amount r\<bar>) acc
                                   else acc) spend_rows [];
                  live = filter (\<lambda>ct. snd ct \<noteq> 0) cat_totals;
                  peaks = concat (map (\<lambda>ct.
                            let ps = dow_peaks_of (dict_get category_dow (fst ct) []) (snd ct)
                            in if ps \<noteq> [] then [(fst ct, ps)] else []) live);
                  shares = map (\<lambda>ct. (fst ct, bucket_shares_of (dict_get category_time (fst ct) []) (snd ct))) live;
                  late = concat (map (\<lambda>ct.
                            let bs = bucket_shares_of (dict_get category_time (fst ct) []) (snd ct);
                                bucket_totals = dict_get category_time (fst ct) [];
                                l_share = dict_get bs ''evening'' 0 + dict_get bs ''late'' 0;
                                l_amount = dict_get bucket_totals ''evening'' 0 + dict_get bucket_totals ''late'' 0
                            in if l_share \<noteq> 0
                               then [(fst ct, \<lparr>late_share = l_share, late_amount = l_amount\<rparr>)]
                               else []) live)
              in (case hhi_scan merchant_window of Inl e \<Rightarrow> Inl e
                  | Inr hh \<Rightarrow>
                      Inr \<lparr>dow_peaks = peaks,
                           time_buckets = shares,
                           merchant_hhi = fst hh,
                           merchant_hhi_details = snd hh,
                           small_leaks = compute_small_leaks spend_rows,
                           cashflow = compute_cashflow rows,
                           late_night = late,
                           ridehail_usage = compute_ridehail_usage spend_rows,
                           category_30d_spend = c30\<rparr>)))))"

section \<open>Recurring charges\<close>

record recurring =
  display_merchant :: string
  merchant_key :: string
  recurring_category :: string
  interval_days :: nat
  median_amount :: real
  pay_day_of_month :: int
  occurrences :: nat
  ghost_subscription :: bool
  recurring_type :: string
  cv :: real

definition match_interval :: "real \<Rightarrow> nat option" where
  "match_interval v =
     (case filter (\<lambda>candidate. \<bar>v - real candidate\<bar> \<le> recurring_interval_tolerance) [7, 14, 30] of
        [] \<Rightarrow> None
      | candidate # _ \<Rightarrow> Some candidate)"

definition most_common :: "string list \<Rightarrow> string" where
  \<comment> \<open>\<open>Counter(xs).most_common(1)[0][0]\<close> of a non-empty list: the first of the most frequent\<close>
  "most_common xs =
     (let counts = fold (\<lambda>x. upd_default x 0 (\<lambda>c. c + 1)) xs []
      in fst (max_by_snd (hd counts) (tl counts)))"

definition category_merchants_last60 :: "int \<Rightarrow> row list \<Rightarrow> (string \<times> string list) list" where
  \<comment> \<open>per category, the set of merchants seen since the cut-off (kept without duplicates)\<close>
  "category_merchants_last60 cutoff_60 rows =
     fold (\<lambda>r acc. if cutoff_60 \<le> dt_instant (dt r)
                    then upd_default (category r) []
                           (\<lambda>ms. if merchant_normalised r \<in> set ms then ms
                                  else ms @ [merchant_normalised r]) acc
                    else acc) rows []"

definition by_merchant :: "row list \<Rightarrow> (string \<times> row list) list" where
  "by_merchant spend_rows =
     fold (\<lambda>r. upd_default (merchant_normalised r) [] (\<lambda>txs. txs @ [r])) spend_rows []"

definition day_gaps :: "row list \<Rightarrow> int list" where
  \<comment> \<open>the days between consecutive occurrences, at least 1 each\<close>
  "day_gaps txs =
     map (\<lambda>i. max (date_ord (dt_date (dt (txs ! i))) - date_ord (dt_date (dt (txs ! (i - 1))))) 1)
         [1..<length txs]"

definition recurring_entry ::
  "(string \<times> string list) list \<Rightarrow> string \<Rightarrow> row list \<Rightarrow> recurring option" where
  \<comment> \<open>the body of the loop over merchants: \<open>None\<close> where the loop continues\<close>
  "recurring_entry last60 mkey txs0 =
     (if length txs0 < recurring_min_occurrences then None
      else
        let txs = sort_key (\<lambda>r. dt_instant (dt r)) txs0;
            amounts = map (\<lambda>t. \<bar>amount t\<bar>) txs;
            avg_amount = sum_list amounts / real (length amounts)
        in if avg_amount = 0 then None
           else
             let std_amount = (if 1 < length amounts then stdev amounts else 0);
                 cvar = (if avg_amount \<noteq> 0 then std_amount / avg_amount else 0)
             in if recurring_cv_threshold < cvar then None
                else
                  let intervals = day_gaps txs
                  in if intervals = [] then None
                     else
                       (case match_interval (median (map real_of_int intervals)) of None \<Rightarrow> None
                        | Some interval \<Rightarrow>
                            let pay_day = py_round (median (map (\<lambda>tx. real (dt_day (dt tx))) txs));
                                cat = most_common (map category txs);
                                display_name = most_common (map merchant txs);
                                med = - median amounts;
                                merchants_in_category = dict_get last60 cat [];
                                ghost = (interval = 30 \<and> set merchants_in_category - {mkey} = {});
                                rtype = (if 200 < \<bar>med\<bar> \<and> (interval = 30 \<or> cat \<in> set RENT_CATEGORIES)
                                         then ''rent'' else ''subscription'')
                            in Some \<lparr>display_merchant = display_name,
                                      merchant_key = mkey,
                                      recurring_category = cat,
                                      interval_days = interval,
                                      median_amount = med,
                                      pay_day_of_month = pay_day,
                                      occurrences = length txs,
                                      ghost_subscription = ghost,
                                      recurring_type = rtype,
                                      cv = cvar\<rparr>))"

definition detect_recurring :: "row list \<Rightarrow> error + recurring list" where
  "detect_recurring rows =
     (let spend_rows = filter is_spend rows
      in if spend_rows = [] then Inr []
         else
           (case max_dt (map dt rows) of Inl e \<Rightarrow> Inl e
            | Inr latest_dt \<Rightarrow>
           (case dt_minus_days latest_dt 60 of Inl e \<Rightarrow> Inl e
            | Inr cutoff_60 \<Rightarrow>
                let last60 = category_merchants_last60 cutoff_60 rows;
                    found = concat (map (\<lambda>g. case recurring_entry last60 (fst g) (snd g) of
                                               None \<Rightarrow> [] | Some e \<Rightarrow> [e])
                                        (by_merchant spend_rows))
                in Inr (sort_key (\<lambda>r. - \<bar>median_amount r\<bar>) found))))"

section \<open>Anomaly detection\<close>

datatype period = Week week_key | Stamp string

record anomaly =
  anomaly_category :: string
  anomaly_period :: period
  anomaly_amount :: real
  z :: "real option"
  reason :: string
  anomaly_merchant :: "string option"

definition spike_at :: "string \<Rightarrow> (week_key \<times> real) list \<Rightarrow> week_key list \<Rightarrow> nat \<Rightarrow> anomaly list" where
  \<comment> \<open>the body of the loop over the weeks of one category, for the week at index \<open>idx\<close>\<close>
  "spike_at cat week_map weeks idx =
     (let window_start = idx - anomaly_window_weeks;
          history = map (\<lambda>j. dict_get week_map (weeks ! j) 0) [window_start..<idx]
      in if length history < 2 then []
         else
           let curr_week = weeks ! idx;
               curr_value = dict_get week_map curr_week 0;
               mean_history = mean history;
               std_history = stdev history;
               prev_value = dict_get week_map (weeks ! (idx - 1)) 0
           in if std_history = 0 then []
              else
                let z_score = (curr_value - mean_history) / std_history;
                    pct_delta = pct_change curr_value prev_value
                in if anomaly_z_threshold < z_score
                      \<and> anomaly_week_delta < (case pct_delta of None \<Rightarrow> 0 | Some p \<Rightarrow> p)
                   then [\<lparr>anomaly_category = cat, anomaly_period = Week curr_week,
                           anomaly_amount = curr_value, z = Some z_score,
                           reason = ''spike_vs_rolling'', anomaly_merchant = None\<rparr>]
                   else [])"

definition rolling_spikes :: "string \<Rightarrow> (week_key \<times> real) list \<Rightarrow> anomaly list" where
  "rolling_spikes cat week_map =
     (let weeks = sort (map fst week_map)
      in concat (map (spike_at cat week_map weeks) [1..<length weeks]))"

definition weekly_category :: "row list \<Rightarrow> (string \<times> (week_key \<times> real) list) list" where
  "weekly_category spend_rows =
     fold (\<lambda>r. upd_default (category r) [] (upd_default (week_key r) 0 (\<lambda>v. v + \<bar>amount r\<bar>)))
          spend_rows []"

definition single_day_spikes :: "row list \<Rightarrow> anomaly list" where
  "single_day_spikes spend_rows =
     (let non_rent_values =
            map (\<lambda>r. \<bar>amount r\<bar>) (filter (\<lambda>r. category r \<notin> set RENT_CATEGORIES) spend_rows);
          pctl = (if non_rent_values \<noteq> [] then percentile_value non_rent_values (99 / 100) else 0)
      in if pctl = 0 then []
         else concat (map (\<lambda>r. if category r \<in> set RENT_CATEGORIES then []
                                else if pctl \<le> \<bar>amount r\<bar> \<and> 0 < \<bar>amount r\<bar>
                                then [\<lparr>anomaly_category = category r, anomaly_period = Stamp (ts r),
                                        anomaly_amount = \<bar>amount r\<bar>, z = None,
                                        reason = ''single_day_spike'',
                                        anomaly_merchant = Some (merchant r)\<rparr>]
                                else []) spend_rows))"

fun duplicate_scan :: "((string \<times> real) \<times> datetime) list \<Rightarrow> row list \<Rightarrow> anomaly list" where
  "duplicate_scan seen [] = []"
| "duplicate_scan seen (r # rs) =
     (let k = (merchant_normalised r, py_round2 (amount r))
      in (case map_of seen k of
            None \<Rightarrow> []
          | Some previous \<Rightarrow>
              if \<bar>dt_instant (dt r) - dt_instant previous\<bar> \<le> 300 * 1000000
              then [\<lparr>anomaly_category = category r, anomaly_period = Stamp (ts r),
                      anomaly_amount = \<bar>amount r\<bar>, z = None, reason = ''potential_duplicate'',
                      anomaly_merchant = Some (merchant r)\<rparr>]
              else [])
         @ duplicate_scan (dict_set k (dt r) seen) rs)"

definition detect_anomalies :: "row list \<Rightarrow> error + anomaly list" where
  "detect_anomalies rows =
     (let spend_rows = filter is_spend rows
      in if spend_rows = [] then Inr []
         else if \<not> tz_consistent (map dt spend_rows) then Inl MixedTimezones
         else Inr (concat (map (\<lambda>cw. rolling_spikes (fst cw) (snd cw)) (weekly_category spend_rows))
                   @ single_day_spikes spend_rows
                   @ duplicate_scan [] (sort_key (\<lambda>r. dt_instant (dt r)) spend_rows)))"

section \<open>Variance and opportunity sizing\<close>

record variance_entry =
  baseline :: real
  projection :: real
  variance :: real
  opportunity :: real
  spent_so_far :: real
  day_of_month :: nat
  mom_pct :: "real option"

record variances =
  per_category :: "(string \<times> variance_entry) list"
  current_month :: "month_key option"
  total_projection :: real
  total_baseline :: real

definition category_monthly :: "row list \<Rightarrow> (string \<times> (month_key \<times> real) list) list" where
  "category_monthly spend_rows =
     fold (\<lambda>r. upd_default (category r) [] (upd_default (month_key r) 0 (\<lambda>v. v + \<bar>amount r\<bar>)))
          spend_rows []"

definition variance_of ::
  "(string \<times> real) list option \<Rightarrow> month_key \<Rightarrow> month_key list \<Rightarrow> nat \<Rightarrow> nat
     \<Rightarrow> string \<Rightarrow> (month_key \<times> real) list \<Rightarrow> variance_entry" where
  \<comment> \<open>the body of the loop over categories\<close>
  "variance_of baselines cur previous_months days_in_current day_no cat month_map =
     (let supplied = (case baselines of None \<Rightarrow> None
                      | Some b \<Rightarrow> if b \<noteq> [] then map_of b cat else None);
          base =
            (case supplied of Some v \<Rightarrow> v
             | None \<Rightarrow>
                 let history = filter (\<lambda>v. 0 < v) (map (\<lambda>m. dict_get month_map m 0) previous_months)
                 in if history \<noteq> [] then median history
                    else if previous_months \<noteq> [] then dict_get month_map (last previous_months) 0
                    else 0);
          spent = dict_get month_map cur 0;
          proj = (if day_no \<noteq> 0 \<and> day_no < days_in_current
                  then spent / real (max day_no 1) * real days_in_current else spent);
          var = proj - base;
          opp = (if 0 < base \<and> 0 < var then min var (base * opportunity_cap_ratio) else 0);
          mom = (if previous_months \<noteq> []
                 then pct_change (dict_get month_map cur 0) (dict_get month_map (last previous_months) 0)
                 else None)
      in \<lparr>baseline = base, projection = proj, variance = var, opportunity = opp,
          spent_so_far = spent, day_of_month = day_no, mom_pct = mom\<rparr>)"

definition empty_variances :: variances where
  "empty_variances =
     \<lparr>per_category = [], current_month = None, total_projection = 0, total_baseline = 0\<rparr>"

definition compute_variances :: "row list \<Rightarrow> (string \<times> real) list option \<Rightarrow> error + variances" where
  "compute_variances rows baselines =
     (let spend_rows = filter is_spend rows
      in if spend_rows = [] then Inr empty_variances
         else
           (case ordered_months (map month_key spend_rows) of Inl e \<Rightarrow> Inl e
            | Inr ms \<Rightarrow>
                if ms = [] then Inr empty_variances
                else
                  let cur = last ms;
                      previous_months = drop (length (butlast ms) - 3) (butlast ms)
                  in (case month_days cur of Inl e \<Rightarrow> Inl e
                      | Inr days_in_current \<Rightarrow>
                          let day_no = fold max (map (\<lambda>r. snd (snd (date r)))
                                                    (filter (\<lambda>r. month_key r = cur) spend_rows)) 0;
                              entries = map (\<lambda>cm. (fst cm, variance_of baselines cur previous_months
                                                               days_in_current day_no (fst cm) (snd cm)))
                                            (category_monthly spend_rows)
                          in Inr \<lparr>per_category = entries,
                                   current_month = Some cur,
                                   total_projection = sum_list (map (\<lambda>e. projection (snd e)) entries),
                                   total_baseline = sum_list (map (\<lambda>e. baseline (snd e)) entries)\<rparr>)))"

section \<open>Suggestions and challenges\<close>

text \<open>
  A suggestion and a challenge carry display texts (title, insight, action, name) and an
  evidence or context map that no stage reads back; the model keeps the fields that the
  later stages and the report's consumers compute with.
\<close>

record suggestion =
  expected_saving :: real
  confidence :: real
  suggestion_category :: string
  suggestion_type :: string

record challenge =
  challenge_code :: string
  window_days :: nat
  target_kind :: string
  target :: real
  category_scope :: "string list"
  reward_points :: nat
  challenge_saving :: real
  success_criteria :: string

definition subscription_suggestions :: "recurring list \<Rightarrow> patterns \<Rightarrow> suggestion list" where
  "subscription_suggestions recs pats =
     concat (map (\<lambda>entry.
                    if recurring_type entry \<noteq> ''subscription'' \<and> \<not> ghost_subscription entry then []
                    else if interval_days entry \<noteq> 30 then []
                    else [\<lparr>expected_saving = \<bar>median_amount entry\<bar>, confidence = 75 / 100,
                            suggestion_category = recurring_category entry,
                            suggestion_type = ''subscription''\<rparr>]) recs)"

definition merchant_swap_suggestions :: "patterns \<Rightarrow> suggestion list" where
  "merchant_swap_suggestions pats =
     concat (map (\<lambda>ci.
                    if fst ci \<notin> set SWAP_ELIGIBLE_CATEGORIES then []
                    else if hhi (snd ci) \<le> hhi_high_threshold then []
                    else [\<lparr>expected_saving = hhi_total (snd ci) * (1 / 10) * top_share (snd ci),
                            confidence = 6 / 10, suggestion_category = fst ci,
                            suggestion_type = ''swap''\<rparr>]) (merchant_hhi_details pats))"

definition drip_spend_suggestions :: "patterns \<Rightarrow> suggestion list" where
  "drip_spend_suggestions pats =
     (let leaks = small_leaks pats
      in if leaks = [] then []
         else
           let latest = last leaks
           in [\<lparr>expected_saving =
                   real_of_int (max 0 (int (leak_count latest) - int small_tx_week_limit))
                     * avg_amount latest * 4,
                 confidence = 55 / 100, suggestion_category = ''misc'',
                 suggestion_type = ''behavioural_nudge''\<rparr>])"

definition late_night_suggestions :: "patterns \<Rightarrow> suggestion list" where
  "late_night_suggestions pats =
     concat (map (\<lambda>cs.
                    if fst cs \<notin> set LATE_NIGHT_CATEGORIES then []
                    else if late_share (snd cs) < 35 / 100 then []
                    else [\<lparr>expected_saving = late_amount (snd cs) * (3 / 10), confidence = 6 / 10,
                            suggestion_category = fst cs,
                            suggestion_type = ''behavioural_nudge''\<rparr>]) (late_night pats))"

definition ridehail_suggestions :: "patterns \<Rightarrow> suggestion list" where
  "ridehail_suggestions pats =
     (case ridehail_usage pats of None \<Rightarrow> []
      | Some usage \<Rightarrow>
          if trip_count usage \<le> 4 then []
          else [\<lparr>expected_saving = ridehail_spend usage * (5 / 10), confidence = 5 / 10,
                  suggestion_category = ''transport.ridehail'',
                  suggestion_type = ''behavioural_nudge''\<rparr>])"

definition cashflow_buffer_suggestions :: "patterns \<Rightarrow> recurring list \<Rightarrow> suggestion list" where
  "cashflow_buffer_suggestions pats recs =
     (let sqs = squeezes (cashflow pats);
          rent_entries = filter (\<lambda>entry. recurring_type entry = ''rent'') recs
      in if sqs = [] \<or> rent_entries = [] then []
         else [\<lparr>expected_saving = 0, confidence = 65 / 100, suggestion_category = ''housing.rent'',
                 suggestion_type = ''cashflow''\<rparr>])"

definition build_suggestions ::
  "trends \<Rightarrow> patterns \<Rightarrow> recurring list \<Rightarrow> anomaly list \<Rightarrow> variances \<Rightarrow> suggestion list" where
  "build_suggestions trnds pats recs anoms vars =
     take 10 (subscription_suggestions recs pats
              @ merchant_swap_suggestions pats
              @ drip_spend_suggestions pats
              @ late_night_suggestions pats
              @ ridehail_suggestions pats
              @ cashflow_buffer_suggestions pats recs)"

definition build_challenges :: "suggestion list \<Rightarrow> patterns \<Rightarrow> variances \<Rightarrow> challenge list" where
  "build_challenges suggs pats vars =
     (let grocery =
            (case map_of (per_category vars) ''groceries'' of
               None \<Rightarrow> []
             | Some gv \<Rightarrow>
                 if 0 < baseline gv
                 then [\<lparr>challenge_code = ''GROCERY_TRIM_14D'', window_days = 14,
                         target_kind = ''amount'',
                         target = round_to_nearest_5 (baseline gv * (9 / 10) * (14 / 30)),
                         category_scope = [''groceries''], reward_points = 120,
                         challenge_saving = baseline gv * (1 / 10) * (14 / 30),
                         success_criteria = ''spend(groceries,14d) <= 0.9 * baseline''\<rparr>]
                 else []);
          late =
            (case map_of (late_night pats) ''eating_out'' of
               None \<Rightarrow> []
             | Some stats \<Rightarrow>
                 [\<lparr>challenge_code = ''NO_LATE_NIGHT_7D'', window_days = 7, target_kind = ''amount'',
                   target = 0, category_scope = [''eating_out''], reward_points = 100,
                   challenge_saving = late_amount stats / 4,
                   success_criteria = ''sum(amount where cat=eating_out and hour>=21) == 0''\<rparr>]);
          ride =
            (case ridehail_usage pats of
               None \<Rightarrow> []
             | Some usage \<Rightarrow>
                 if 4 \<le> trip_count usage
                 then [\<lparr>challenge_code = ''RIDEHAIL_SWAP_14D'', window_days = 14,
                         target_kind = ''count'',
                         target = real_of_int (max 0 (int (trip_count usage) - 4)),
                         category_scope = [''transport.ridehail''], reward_points = 90,
                         challenge_saving = ridehail_spend usage * (4 / 10),
                         success_criteria = ''replace >=4 trips with non-ridehail options''\<rparr>]
                 else []);
          sub =
            (case filter (\<lambda>s. suggestion_type s = ''subscription'') suggs of
               [] \<Rightarrow> []
             | s # _ \<Rightarrow>
                 [\<lparr>challenge_code = ''SUBSCRIPTION_AUDIT_30D'', window_days = 30,
                   target_kind = ''count'', target = 1,
                   category_scope = [suggestion_category s], reward_points = 80,
                   challenge_saving = expected_saving s,
                   success_criteria = ''cancel_or_downgrade >=1 recurring charge''\<rparr>]);
          candidates = grocery @ late @ ride @ sub
      in take 3 (sort_key (\<lambda>c. - challenge_saving c) candidates))"

section \<open>Summary and orchestration\<close>

record summary =
  period :: string
  total_spend_30d :: real
  projected_spend_curr_month :: real
  top_rising_categories :: "(string \<times> real) list"
  top_saving_opportunities :: "(string \<times> real) list"

record report_patterns =
  report_dow_peaks :: "(string \<times> string list) list"
  report_time_buckets :: "(string \<times> (string \<times> real) list) list"
  report_merchant_hhi :: "(string \<times> real) list"
  report_small_leaks :: "leak list"
  cashflow_squeezes :: "squeeze list"

record report =
  report_summary :: summary
  report_patterns :: report_patterns
  report_recurring :: "recurring list"
  anomalies :: "anomaly list"
  suggestions :: "suggestion list"
  challenges :: "challenge list"

definition compute_top_rising_categories :: "trends \<Rightarrow> (string \<times> real) list" where
  "compute_top_rising_categories trnds =
     (let ms = map fst (monthly_spend trnds)
      in if length ms < 2 then []
         else
           let cur = last ms;
               previous_month = ms ! (length ms - 2);
               rising_cats =
                 concat (map (\<lambda>cs.
                                let c = dict_get (snd cs) cur 0;
                                    p = dict_get (snd cs) previous_month 0
                                in if c < 15 then []
                                   else (case pct_change c p of None \<Rightarrow> []
                                         | Some change \<Rightarrow>
                                             if change \<noteq> 0 \<and> rising_mom_threshold \<le> change
                                             then [(fst cs, change)] else []))
                             (category_spend trnds))
           in take 3 (sort_key (\<lambda>item. - snd item) rising_cats))"

definition top_saving_opportunities_of :: "variances \<Rightarrow> (string \<times> real) list" where
  "top_saving_opportunities_of vars =
     (let candidates =
            concat (map (\<lambda>cd. if opportunity (snd cd) \<noteq> 0 then [(fst cd, opportunity (snd cd))] else [])
                        (per_category vars))
      in take 3 (sort_key (\<lambda>item. - snd item) candidates))"

definition summarise ::
  "row list \<Rightarrow> trends \<Rightarrow> patterns \<Rightarrow> recurring list \<Rightarrow> anomaly list \<Rightarrow> suggestion list
     \<Rightarrow> challenge list \<Rightarrow> variances \<Rightarrow> error + report" where
  "summarise rows trnds pats recs anoms suggs chals vars =
     (case ordered_months (map month_key rows) of Inl e \<Rightarrow> Inl e
      | Inr ms \<Rightarrow>
          let per = (if ms \<noteq> [] then ms ! 0 @ '' to '' @ last ms else [])
          in (case (if rows = [] then Inr 0
                    else (case max_dt (map dt rows) of Inl e \<Rightarrow> Inl e
                          | Inr latest_dt \<Rightarrow>
                              (case dt_minus_days latest_dt 30 of Inl e \<Rightarrow> Inl e
                               | Inr cutoff \<Rightarrow>
                                   Inr (sum_list (map (\<lambda>r. \<bar>amount r\<bar>)
                                          (filter (\<lambda>r. is_spend r \<and> cutoff \<le> dt_instant (dt r)) rows))))))
              of Inl e \<Rightarrow> Inl e
              | Inr spend_30d \<Rightarrow>
                  Inr \<lparr>report_summary =
                          \<lparr>period = per,
                           total_spend_30d = spend_30d,
                           projected_spend_curr_month = total_projection vars,
                           top_rising_categories = compute_top_rising_categories trnds,
                           top_saving_opportunities = top_saving_opportunities_of vars\<rparr>,
                        report_patterns =
                          \<lparr>report_dow_peaks = dow_peaks pats,
                           report_time_buckets = time_buckets pats,
                           report_merchant_hhi = merchant_hhi pats,
                           report_small_leaks = small_leaks pats,
                           cashflow_squeezes = squeezes (cashflow pats)\<rparr>,
                        report_recurring = recs,
                        anomalies = anoms,
                        suggestions = suggs,
                        challenges = chals\<rparr>))"

definition analyse_rows :: "row list \<Rightarrow> error + report" where
  \<comment> \<open>the stages of \<open>analyse_spending\<close> after pre-processing; they only read the rows\<close>
  "analyse_rows rows =
     (case monthly_trends rows of Inl e \<Rightarrow> Inl e
      | Inr trnds \<Rightarrow>
     (case pattern_mining rows of Inl e \<Rightarrow> Inl e
      | Inr pats \<Rightarrow>
     (case detect_recurring rows of Inl e \<Rightarrow> Inl e
      | Inr recs \<Rightarrow>
     (case detect_anomalies rows of Inl e \<Rightarrow> Inl e
      | Inr anoms \<Rightarrow>
     (case compute_variances rows None of Inl e \<Rightarrow> Inl e
      | Inr vars \<Rightarrow>
          let suggs = build_suggestions trnds pats recs anoms vars;
              chals = build_challenges suggs pats vars
          in summarise rows trnds pats recs anoms suggs chals vars)))))"

definition analyse_spending :: "pylib \<Rightarrow> heap \<Rightarrow> nat list \<Rightarrow> (error + report) \<times> heap" where
  "analyse_spending lib h transactions =
     (case preprocess lib h transactions of
        (Inl e, h') \<Rightarrow> (Inl e, h')
      | (Inr cleaned, h') \<Rightarrow> (analyse_rows (rows_of h' cleaned), h'))"

section \<open>Example inputs and auxiliary notions\<close>

text \<open>
  The inputs at which the theorems below are instantiated, and the notions their
  statements use.
\<close>

definition six_weeks :: "(week_key \<times> real) list" where
  \<comment> \<open>the weekly totals 100, 100, 100, 100, 100, 300 of one category\<close>
  "six_weeks = [((2024, 1), 100), ((2024, 2), 100), ((2024, 3), 100), ((2024, 4), 100),
                ((2024, 5), 100), ((2024, 6), 300)]"

definition four_weeks :: "(week_key \<times> real) list" where
  \<comment> \<open>the weekly totals 90, 100, 110, 300 of one category\<close>
  "four_weeks = [((2024, 1), 90), ((2024, 2), 100), ((2024, 3), 110), ((2024, 4), 300)]"

definition three_months :: "(month_key \<times> real) list" where
  "three_months = [(''2024-01'', 10), (''2024-02'', 20), (''2024-03'', 60)]"

definition padded_months :: "(month_key \<times> real) list" where
  \<comment> \<open>a series whose first key is a zero-padded text for February 999\<close>
  "padded_months = [(''0999-02'', 7), (''1000-01'', 5)]"

definition next_month_of :: "nat \<times> nat \<Rightarrow> nat \<times> nat" where
  \<comment> \<open>the year and month after year and month \<open>m\<close>\<close>
  "next_month_of m = (if snd m = 12 then (fst m + 1, 1) else (fst m, snd m + 1))"

definition seasonal_of :: "nat \<times> nat \<Rightarrow> nat \<times> nat" where
  \<comment> \<open>twelve months before the month after \<open>m\<close>\<close>
  "seasonal_of m = (if snd m = 12 then (fst m, 1) else (fst m - 1, snd m + 1))"

definition month_text :: "nat \<times> nat \<Rightarrow> month_key" where
  \<comment> \<open>the key of a year and month\<close>
  "month_text m = strftime_ym (fst m) (snd m)"

definition raises_on :: "nat \<times> nat \<Rightarrow> bool" where
  \<comment> \<open>the last months for which the month arithmetic of the forecast leaves the years
      1..9999: December 9999, and January to November of year 1\<close>
  "raises_on m = (m = (9999, 12) \<or> (fst m = 1 \<and> snd m \<noteq> 12))"

definition amount_field :: "rawtx \<Rightarrow> pyval" where
  \<comment> \<open>\<open>row.get("amount", 0)\<close>\<close>
  "amount_field t = (case t ''amount'' of None \<Rightarrow> PInt 0 | Some v \<Rightarrow> v)"

definition spend_magnitudes :: "row list \<Rightarrow> string \<Rightarrow> real list" where
  \<comment> \<open>the absolute amounts of the spend rows of one category, in batch order\<close>
  "spend_magnitudes rs c = map (\<lambda>r. \<bar>amount r\<bar>) (filter (\<lambda>r. is_spend r \<and> category r = c) rs)"

definition winsorised :: "row \<Rightarrow> row" where
  \<comment> \<open>a row whose winsorised amount is its amount\<close>
  "winsorised r = r\<lparr>amount_winsorised := Some (amount r)\<rparr>"

text \<open>
  A parsing library for the examples: the fragment of \<open>datetime.fromisoformat\<close> that reads
  \<open>YYYY-MM-DDTHH:MM:SS\<close>, with or without the offset \<open>+00:00\<close>, and the fragment of
  \<open>float\<close> that reads a string of decimal digits.
\<close>

definition fromisoformat_basic :: "string \<Rightarrow> datetime option" where
  "fromisoformat_basic s =
     (if (length s = 19 \<or> (length s = 25 \<and> drop 19 s = ''+00:00''))
         \<and> s ! 4 = CHR ''-'' \<and> s ! 7 = CHR ''-'' \<and> s ! 10 = CHR ''T''
         \<and> s ! 13 = CHR '':'' \<and> s ! 16 = CHR '':''
      then
        (case (num_of (take 4 s) 0, num_of (take 2 (drop 5 s)) 0, num_of (take 2 (drop 8 s)) 0,
               num_of (take 2 (drop 11 s)) 0, num_of (take 2 (drop 14 s)) 0,
               num_of (take 2 (drop 17 s)) 0) of
           (Some y, Some m, Some d, Some hh, Some mi, Some ss) \<Rightarrow>
             if 1 \<le> y \<and> 1 \<le> m \<and> m \<le> 12 \<and> 1 \<le> d \<and> d \<le> days_in_month y m
                \<and> hh < 24 \<and> mi < 60 \<and> ss < 60
             then Some \<lparr>dt_year = y, dt_month = m, dt_day = d, dt_hour = hh, dt_minute = mi,
                        dt_second = ss, dt_micro = 0,
                        dt_utcoffset = (if length s = 25 then Some 0 else None)\<rparr>
             else None
         | _ \<Rightarrow> None)
      else None)"

definition example_lib :: pylib where
  "example_lib =
     \<lparr>fromisoformat = fromisoformat_basic,
      float_of_str = (\<lambda>s. if s = [] then None else map_option real (num_of s 0))\<rparr>"

definition tx :: "real \<Rightarrow> string \<Rightarrow> string \<Rightarrow> string \<Rightarrow> rawtx" where
  \<comment> \<open>a caller's transaction with all the documented fields, in GBP\<close>
  "tx amt stamp merch cat =
     [''amount'' \<mapsto> PFloat amt, ''currency'' \<mapsto> PStr ''GBP'', ''ts'' \<mapsto> PStr stamp,
      ''merchant'' \<mapsto> PStr merch, ''category'' \<mapsto> PStr cat]"

text \<open>
  Three charges of the same amount \<open>a\<close> by one merchant, 30 days apart (5 January,
  4 February and 5 March 2024), as the caller passes them and as they are enriched.
\<close>

definition charge_tx1 :: "real \<Rightarrow> rawtx" where
  "charge_tx1 a = tx a ''2024-01-05T08:00:00Z'' ''Netflix'' ''entertainment''"

definition charge_tx2 :: "real \<Rightarrow> rawtx" where
  "charge_tx2 a = tx a ''2024-02-04T08:00:00Z'' ''Netflix'' ''entertainment''"

definition charge_tx3 :: "real \<Rightarrow> rawtx" where
  "charge_tx3 a = tx a ''2024-03-05T08:00:00Z'' ''Netflix'' ''entertainment''"

definition charge_batch :: "real \<Rightarrow> heap" where
  "charge_batch a = [Raw (charge_tx1 a), Raw (charge_tx2 a), Raw (charge_tx3 a)]"

definition charge_dt1 :: datetime where
  "charge_dt1 = \<lparr>dt_year = 2024, dt_month = 1, dt_day = 5, dt_hour = 8, dt_minute = 0,
      dt_second = 0, dt_micro = 0, dt_utcoffset = Some 0\<rparr>"

definition charge_dt2 :: datetime where
  "charge_dt2 = \<lparr>dt_year = 2024, dt_month = 2, dt_day = 4, dt_hour = 8, dt_minute = 0,
      dt_second = 0, dt_micro = 0, dt_utcoffset = Some 0\<rparr>"

definition charge_dt3 :: datetime where
  "charge_dt3 = \<lparr>dt_year = 2024, dt_month = 3, dt_day = 5, dt_hour = 8, dt_minute = 0,
      dt_second = 0, dt_micro = 0, dt_utcoffset = Some 0\<rparr>"

definition charge_row1 :: "real \<Rightarrow> row" where
  "charge_row1 a =
     \<lparr>extra = charge_tx1 a, amount = a, amount_abs = \<bar>a\<bar>, ts = ''2024-01-05T08:00:00Z'', dt = charge_dt1,
      date = (2024, 1, 5), dow = 4, hour = 8, week = 1, week_year = 2024, week_key = (2024, 1),
      week_start = (2024, 1, 1), month = ''2024-01'', month_key = ''2024-01'',
      month_start = (2024, 1, 1), is_spend = (a < 0), is_income = (0 < a),
      category = ''entertainment'', merchant = ''Netflix'', merchant_normalised = ''netflix'',
      time_bucket = ''morning'', iso_weekday = 5, amount_winsorised = None\<rparr>"

definition charge_row2 :: "real \<Rightarrow> row" where
  "charge_row2 a =
     \<lparr>extra = charge_tx2 a, amount = a, amount_abs = \<bar>a\<bar>, ts = ''2024-02-04T08:00:00Z'', dt = charge_dt2,
      date = (2024, 2, 4), dow = 6, hour = 8, week = 5, week_year = 2024, week_key = (2024, 5),
      week_start = (2024, 1, 29), month = ''2024-02'', month_key = ''2024-02'',
      month_start = (2024, 2, 1), is_spend = (a < 0), is_income = (0 < a),
      category = ''entertainment'', merchant = ''Netflix'', merchant_normalised = ''netflix'',
      time_bucket = ''morning'', iso_weekday = 7, amount_winsorised = None\<rparr>"

definition charge_row3 :: "real \<Rightarrow> row" where
  "charge_row3 a =
     \<lparr>extra = charge_tx3 a, amount = a, amount_abs = \<bar>a\<bar>, ts = ''2024-03-05T08:00:00Z'', dt = charge_dt3,
      date = (2024, 3, 5), dow = 1, hour = 8, week = 10, week_year = 2024, week_key = (2024, 10),
      week_start = (2024, 3, 4), month = ''2024-03'', month_key = ''2024-03'',
      month_start = (2024, 3, 1), is_spend = (a < 0), is_income = (0 < a),
      category = ''entertainment'', merchant = ''Netflix'', merchant_normalised = ''netflix'',
      time_bucket = ''morning'', iso_weekday = 2, amount_winsorised = None\<rparr>"

definition charge_rows :: "real \<Rightarrow> row list" where
  \<comment> \<open>the three charges after pre-processing\<close>
  "charge_rows a = [winsorised (charge_row1 a), winsorised (charge_row2 a), winsorised (charge_row3 a)]"

text \<open>
  One grocery transaction of 50 in each of January, February and March 2024, and one of 55
  on 10 April 2024 (a month of 30 days).
\<close>

definition grocery_tx1 :: rawtx where
  "grocery_tx1 = tx (- 50) ''2024-01-15T10:00:00Z'' ''Tesco'' ''groceries''"

definition grocery_tx2 :: rawtx where
  "grocery_tx2 = tx (- 50) ''2024-02-15T10:00:00Z'' ''Tesco'' ''groceries''"

definition grocery_tx3 :: rawtx where
  "grocery_tx3 = tx (- 50) ''2024-03-15T10:00:00Z'' ''Tesco'' ''groceries''"

definition grocery_tx4 :: rawtx where
  "grocery_tx4 = tx (- 55) ''2024-04-10T10:00:00Z'' ''Tesco'' ''groceries''"

definition grocery_batch :: heap where
  "grocery_batch = [Raw grocery_tx1, Raw grocery_tx2, Raw grocery_tx3, Raw grocery_tx4]"

definition grocery_dt1 :: datetime where
  "grocery_dt1 = \<lparr>dt_year = 2024, dt_month = 1, dt_day = 15, dt_hour = 10, dt_minute = 0,
      dt_second = 0, dt_micro = 0, dt_utcoffset = Some 0\<rparr>"

definition grocery_dt2 :: datetime where
  "grocery_dt2 = \<lparr>dt_year = 2024, dt_month = 2, dt_day = 15, dt_hour = 10, dt_minute = 0,
      dt_second = 0, dt_micro = 0, dt_utcoffset = Some 0\<rparr>"

definition grocery_dt3 :: datetime where
  "grocery_dt3 = \<lparr>dt_year = 2024, dt_month = 3, dt_day = 15, dt_hour = 10, dt_minute = 0,
      dt_second = 0, dt_micro = 0, dt_utcoffset = Some 0\<rparr>"

definition grocery_dt4 :: datetime where
  "grocery_dt4 = \<lparr>dt_year = 2024, dt_month = 4, dt_day = 10, dt_hour = 10, dt_minute = 0,
      dt_second = 0, dt_micro = 0, dt_utcoffset = Some 0\<rparr>"

definition grocery_row1 :: row where
  "grocery_row1 =
     \<lparr>extra = grocery_tx1, amount = - 50, amount_abs = 50, ts = ''2024-01-15T10:00:00Z'', dt = grocery_dt1,
      date = (2024, 1, 15), dow = 0, hour = 10, week = 3, week_year = 2024, week_key = (2024, 3),
      week_start = (2024, 1, 15), month = ''2024-01'', month_key = ''2024-01'',
      month_start = (2024, 1, 1), is_spend = True, is_income = False,
      category = ''groceries'', merchant = ''Tesco'', merchant_normalised = ''tesco'',
      time_bucket = ''morning'', iso_weekday = 1, amount_winsorised = None\<rparr>"

definition grocery_row2 :: row where
  "grocery_row2 =
     \<lparr>extra = grocery_tx2, amount = - 50, amount_abs = 50, ts = ''2024-02-15T10:00:00Z'', dt = grocery_dt2,
      date = (2024, 2, 15), dow = 3, hour = 10, week = 7, week_year = 2024, week_key = (2024, 7),
      week_start = (2024, 2, 12), month = ''2024-02'', month_key = ''2024-02'',
      month_start = (2024, 2, 1), is_spend = True, is_income = False,
      category = ''groceries'', merchant = ''Tesco'', merchant_normalised = ''tesco'',
      time_bucket = ''morning'', iso_weekday = 4, amount_winsorised = None\<rparr>"

definition grocery_row3 :: row where
  "grocery_row3 =
     \<lparr>extra = grocery_tx3, amount = - 50, amount_abs = 50, ts = ''2024-03-15T10:00:00Z'', dt = grocery_dt3,
      date = (2024, 3, 15), dow = 4, hour = 10, week = 11, week_year = 2024, week_key = (2024, 11),
      week_start = (2024, 3, 11), month = ''2024-03'', month_key = ''2024-03'',
      month_start = (2024, 3, 1), is_spend = True, is_income = False,
      category = ''groceries'', merchant = ''Tesco'', merchant_normalised = ''tesco'',
      time_bucket = ''morning'', iso_weekday = 5, amount_winsorised = None\<rparr>"

definition grocery_row4 :: row where
  "grocery_row4 =
     \<lparr>extra = grocery_tx4, amount = - 55, amount_abs = 55, ts = ''2024-04-10T10:00:00Z'', dt = grocery_dt4,
      date = (2024, 4, 10), dow = 2, hour = 10, week = 15, week_year = 2024, week_key = (2024, 15),
      week_start = (2024, 4, 8), month = ''2024-04'', month_key = ''2024-04'',
      month_start = (2024, 4, 1), is_spend = True, is_income = False,
      category = ''groceries'', merchant = ''Tesco'', merchant_normalised = ''tesco'',
      time_bucket = ''morning'', iso_weekday = 3, amount_winsorised = None\<rparr>"

definition grocery_rows :: "row list" where
  \<comment> \<open>the grocery batch after pre-processing: the charge of 55 is capped at 54.85\<close>
  "grocery_rows =
     [winsorised grocery_row1, winsorised grocery_row2, winsorised grocery_row3,
      grocery_row4\<lparr>amount_winsorised := Some (- (1097 / 20))\<rparr>]"

text \<open>
  One grocery transaction in each of six consecutive ISO weeks (Mondays from 1 January to
  5 February 2024): five of 100, then one of 300.
\<close>

definition weekly_tx1 :: rawtx where
  "weekly_tx1 = tx (- 100) ''2024-01-01T12:00:00Z'' ''Tesco'' ''groceries''"

definition weekly_tx2 :: rawtx where
  "weekly_tx2 = tx (- 100) ''2024-01-08T12:00:00Z'' ''Tesco'' ''groceries''"

definition weekly_tx3 :: rawtx where
  "weekly_tx3 = tx (- 100) ''2024-01-15T12:00:00Z'' ''Tesco'' ''groceries''"

definition weekly_tx4 :: rawtx where
  "weekly_tx4 = tx (- 100) ''2024-01-22T12:00:00Z'' ''Tesco'' ''groceries''"

definition weekly_tx5 :: rawtx where
  "weekly_tx5 = tx (- 100) ''2024-01-29T12:00:00Z'' ''Tesco'' ''groceries''"

definition weekly_tx6 :: rawtx where
  "weekly_tx6 = tx (- 300) ''2024-02-05T12:00:00Z'' ''Tesco'' ''groceries''"

definition weekly_batch :: heap where
  "weekly_batch =
     [Raw weekly_tx1, Raw weekly_tx2, Raw weekly_tx3, Raw weekly_tx4, Raw weekly_tx5, Raw weekly_tx6]"

definition weekly_dt1 :: datetime where
  "weekly_dt1 = \<lparr>dt_year = 2024, dt_month = 1, dt_day = 1, dt_hour = 12, dt_minute = 0,
      dt_second = 0, dt_micro = 0, dt_utcoffset = Some 0\<rparr>"

definition weekly_dt2 :: datetime where
  "weekly_dt2 = \<lparr>dt_year = 2024, dt_month = 1, dt_day = 8, dt_hour = 12, dt_minute = 0,
      dt_second = 0, dt_micro = 0, dt_utcoffset = Some 0\<rparr>"

definition weekly_dt3 :: datetime where
  "weekly_dt3 = \<lparr>dt_year = 2024, dt_month = 1, dt_day = 15, dt_hour = 12, dt_minute = 0,
      dt_second = 0, dt_micro = 0, dt_utcoffset = Some 0\<rparr>"

definition weekly_dt4 :: datetime where
  "weekly_dt4 = \<lparr>dt_year = 2024, dt_month = 1, dt_day = 22, dt_hour = 12, dt_minute = 0,
      dt_second = 0, dt_micro = 0, dt_utcoffset = Some 0\<rparr>"

definition weekly_dt5 :: datetime where
  "weekly_dt5 = \<lparr>dt_year = 2024, dt_month = 1, dt_day = 29, dt_hour = 12, dt_minute = 0,
      dt_second = 0, dt_micro = 0, dt_utcoffset = Some 0\<rparr>"

definition weekly_dt6 :: datetime where
  "weekly_dt6 = \<lparr>dt_year = 2024, dt_month = 2, dt_day = 5, dt_hour = 12, dt_minute = 0,
      dt_second = 0, dt_micro = 0, dt_utcoffset = Some 0\<rparr>"

definition weekly_row1 :: row where
  "weekly_row1 =
     \<lparr>extra = weekly_tx1, amount = - 100, amount_abs = 100, ts = ''2024-01-01T12:00:00Z'', dt = weekly_dt1,
      date = (2024, 1, 1), dow = 0, hour = 12, week = 1, week_year = 2024, week_key = (2024, 1),
      week_start = (2024, 1, 1), month = ''2024-01'', month_key = ''2024-01'',
      month_start = (2024, 1, 1), is_spend = True, is_income = False,
      category = ''groceries'', merchant = ''Tesco'', merchant_normalised = ''tesco'',
      time_bucket = ''afternoon'', iso_weekday = 1, amount_winsorised = None\<rparr>"

definition weekly_row2 :: row where
  "weekly_row2 =
     \<lparr>extra = weekly_tx2, amount = - 100, amount_abs = 100, ts = ''2024-01-08T12:00:00Z'', dt = weekly_dt2,
      date = (2024, 1, 8), dow = 0, hour = 12, week = 2, week_year = 2024, week_key = (2024, 2),
      week_start = (2024, 1, 8), month = ''2024-01'', month_key = ''2024-01'',
      month_start = (2024, 1, 1), is_spend = True, is_income = False,
      category = ''groceries'', merchant = ''Tesco'', merchant_normalised = ''tesco'',
      time_bucket = ''afternoon'', iso_weekday = 1, amount_winsorised = None\<rparr>"

definition weekly_row3 :: row where
  "weekly_row3 =
     \<lparr>extra = weekly_tx3, amount = - 100, amount_abs = 100, ts = ''2024-01-15T12:00:00Z'', dt = weekly_dt3,
      date = (2024, 1, 15), dow = 0, hour = 12, week = 3, week_year = 2024, week_key = (2024, 3),
      week_start = (2024, 1, 15), month = ''2024-01'', month_key = ''2024-01'',
      month_start = (2024, 1, 1), is_spend = True, is_income = False,
      category = ''groceries'', merchant = ''Tesco'', merchant_normalised = ''tesco'',
      time_bucket = ''afternoon'', iso_weekday = 1, amount_winsorised = None\<rparr>"

definition weekly_row4 :: row where
  "weekly_row4 =
     \<lparr>extra = weekly_tx4, amount = - 100, amount_abs = 100, ts = ''2024-01-22T12:00:00Z'', dt = weekly_dt4,
      date = (2024, 1, 22), dow = 0, hour = 12, week = 4, week_year = 2024, week_key = (2024, 4),
      week_start = (2024, 1, 22), month = ''2024-01'', month_key = ''2024-01'',
      month_start = (2024, 1, 1), is_spend = True, is_income = False,
      category = ''groceries'', merchant = ''Tesco'', merchant_normalised = ''tesco'',
      time_bucket = ''afternoon'', iso_weekday = 1, amount_winsorised = None\<rparr>"

definition weekly_row5 :: row where
  "weekly_row5 =
     \<lparr>extra = weekly_tx5, amount = - 100, amount_abs = 100, ts = ''2024-01-29T12:00:00Z'', dt = weekly_dt5,
      date = (2024, 1, 29), dow = 0, hour = 12, week = 5, week_year = 2024, week_key = (2024, 5),
      week_start = (2024, 1, 29), month = ''2024-01'', month_key = ''2024-01'',
      month_start = (2024, 1, 1), is_spend = True, is_income = False,
      category = ''groceries'', merchant = ''Tesco'', merchant_normalised = ''tesco'',
      time_bucket = ''afternoon'', iso_weekday = 1, amount_winsorised = None\<rparr>"

definition weekly_row6 :: row where
  "weekly_row6 =
     \<lparr>extra = weekly_tx6, amount = - 300, amount_abs = 300, ts = ''2024-02-05T12:00:00Z'', dt = weekly_dt6,
      date = (2024, 2, 5), dow = 0, hour = 12, week = 6, week_year = 2024, week_key = (2024, 6),
      week_start = (2024, 2, 5), month = ''2024-02'', month_key = ''2024-02'',
      month_start = (2024, 2, 1), is_spend = True, is_income = False,
      category = ''groceries'', merchant = ''Tesco'', merchant_normalised = ''tesco'',
      time_bucket = ''afternoon'', iso_weekday = 1, amount_winsorised = None\<rparr>"

definition weekly_rows :: "row list" where
  "weekly_rows =
     [winsorised weekly_row1, winsorised weekly_row2, winsorised weekly_row3,
      winsorised weekly_row4, winsorised weekly_row5, weekly_row6\<lparr>amount_winsorised := Some (- 290)\<rparr>]"

text \<open>Transactions without a currency, in another currency, and without an amount.\<close>

definition nocurrency_tx :: rawtx where
  \<comment> \<open>a transaction with no currency field\<close>
  "nocurrency_tx =
     [''amount'' \<mapsto> PFloat (- 50), ''ts'' \<mapsto> PStr ''2024-01-15T10:00:00Z'',
      ''merchant'' \<mapsto> PStr ''Tesco'', ''category'' \<mapsto> PStr ''groceries'']"

definition usd_tx :: rawtx where
  \<comment> \<open>a transaction in another currency\<close>
  "usd_tx =
     [''amount'' \<mapsto> PFloat (- 50), ''currency'' \<mapsto> PStr ''USD'',
      ''ts'' \<mapsto> PStr ''2024-01-15T10:00:00Z'', ''merchant'' \<mapsto> PStr ''Tesco'',
      ''category'' \<mapsto> PStr ''groceries'']"

definition currency_batch :: heap where
  \<comment> \<open>a transaction without a currency, then one in another currency\<close>
  "currency_batch = [Raw nocurrency_tx, Raw usd_tx]"

definition noamount_tx :: rawtx where
  \<comment> \<open>a transaction with no amount field, dated 4 February 2024\<close>
  "noamount_tx =
     [''currency'' \<mapsto> PStr ''GBP'', ''ts'' \<mapsto> PStr ''2024-02-04T08:00:00Z'',
      ''merchant'' \<mapsto> PStr ''Netflix'', ''category'' \<mapsto> PStr ''entertainment'']"

definition noamount_row :: row where
  "noamount_row = (charge_row2 0)\<lparr>extra := noamount_tx\<rparr>"

definition squeeze_rows :: "row list" where
  \<comment> \<open>an outflow of 10 in ISO week 1 of 2024 and an inflow of 10 in week 10\<close>
  "squeeze_rows = [winsorised (charge_row1 (- 10)), winsorised (charge_row3 10)]"

definition squeeze_rows_zero :: "row list" where
  \<comment> \<open>the same with the zero-amount transaction of week 5 between them\<close>
  "squeeze_rows_zero =
     [winsorised (charge_row1 (- 10)), winsorised noamount_row, winsorised (charge_row3 10)]"

definition per_category_values :: "row list \<Rightarrow> (pyval \<times> real list) list" where
  \<comment> \<open>the dictionary the first loop of the winsorising pass builds from enriched rows\<close>
  "per_category_values rs =
     fold (\<lambda>r acc. if is_spend r
                    then upd_default (PStr (category r)) [] (\<lambda>vs. vs @ [\<bar>amount r\<bar>]) acc
                    else acc) rs []"

definition win_obj :: "(pyval \<times> real) list \<Rightarrow> pyobj \<Rightarrow> pyobj" where
  \<comment> \<open>an enriched row with its winsorised amount written\<close>
  "win_obj caps ob =
     (case ob of Row r \<Rightarrow> Row (r\<lparr>amount_winsorised := Some (clip_amount caps r)\<rparr>)
      | Raw t \<Rightarrow> Raw t)"

definition is_row :: "pyobj \<Rightarrow> bool" where
  "is_row ob = (case ob of Row r \<Rightarrow> True | Raw t \<Rightarrow> False)"

text \<open>The rule of the rolling-spike detector, in the words of its description.\<close>

definition week_history :: "(week_key \<times> real) list \<Rightarrow> week_key list \<Rightarrow> nat \<Rightarrow> real list" where
  \<comment> \<open>the totals of the weeks before the week at index \<open>idx\<close>, the last
      \<open>anomaly_window_weeks\<close> of them at most\<close>
  "week_history week_map weeks idx =
     map (\<lambda>j. dict_get week_map (weeks ! j) 0) [idx - anomaly_window_weeks..<idx]"

definition is_rolling_spike :: "(week_key \<times> real) list \<Rightarrow> week_key list \<Rightarrow> nat \<Rightarrow> bool" where
  \<comment> \<open>at least two weeks of history, whose standard deviation is not zero; a z-score above
      2; and a previous week that is not zero, over which the total rose by more than 0.30\<close>
  "is_rolling_spike week_map weeks idx =
     (let history = week_history week_map weeks idx;
          cur = dict_get week_map (weeks ! idx) 0;
          prv = dict_get week_map (weeks ! (idx - 1)) 0
      in 2 \<le> length history \<and> stdev history \<noteq> 0
         \<and> 2 < (cur - mean history) / stdev history
         \<and> prv \<noteq> 0 \<and> 3 / 10 < (cur - prv) / prv)"

definition spike_entry :: "string \<Rightarrow> (week_key \<times> real) list \<Rightarrow> week_key list \<Rightarrow> nat \<Rightarrow> anomaly" where
  \<comment> \<open>the entry reported for a flagged week\<close>
  "spike_entry cat week_map weeks idx =
     \<lparr>anomaly_category = cat, anomaly_period = Week (weeks ! idx),
      anomaly_amount = dict_get week_map (weeks ! idx) 0,
      z = Some ((dict_get week_map (weeks ! idx) 0 - mean (week_history week_map weeks idx))
                / stdev (week_history week_map weeks idx)),
      reason = ''spike_vs_rolling'', anomaly_merchant = None\<rparr>"

definition flagged_weeks :: "string \<Rightarrow> (week_key \<times> real) list \<Rightarrow> anomaly list" where
  \<comment> \<open>the entries of the weeks of one category that satisfy the rule, in week order, from
      the second week on\<close>
  "flagged_weeks cat week_map =
     (let weeks = sort (map fst week_map)
      in map (spike_entry cat week_map weeks)
             (filter (is_rolling_spike week_map weeks) [1..<length weeks]))"

definition weekly_spike :: anomaly where
  \<comment> \<open>the transaction of 300 of the six weekly transactions, as a single-day spike\<close>
  "weekly_spike =
     \<lparr>anomaly_category = ''groceries'', anomaly_period = Stamp ''2024-02-05T12:00:00Z'',
      anomaly_amount = 300, z = None, reason = ''single_day_spike'',
      anomaly_merchant = Some ''Tesco''\<rparr>"

section \<open>The empty batch\<close>

lemma monthly_trends_empty:
  "monthly_trends [] = Inr \<lparr>monthly_spend = [], monthly_income = [], spend_moving_average = [],
      income_moving_average = [], spend_mom_pct = [], income_mom_pct = [], category_spend = [],
      category_share = [], trend_slopes = \<lparr>total_spend = 0, total_income = 0, categories = []\<rparr>,
      forecast = None\<rparr>"
  by (simp add: monthly_trends_def compute_monthly_trends_def spend_totals_def income_totals_def
      category_totals_def ordered_months_def rolling_mean_def month_over_month_def
      compute_category_share_def linear_trend_def forecast_next_month_def metrics.defs trends.defs)

lemma build_suggestions_empty:
  "build_suggestions t empty_patterns [] [] empty_variances = []"
  by (simp add: build_suggestions_def subscription_suggestions_def merchant_swap_suggestions_def
      drip_spend_suggestions_def late_night_suggestions_def ridehail_suggestions_def
      cashflow_buffer_suggestions_def empty_patterns_def)

lemma build_challenges_empty:
  "build_challenges [] empty_patterns empty_variances = []"
  by (simp add: build_challenges_def empty_patterns_def empty_variances_def)

lemma analyse_rows_empty:
  "analyse_rows [] =
     Inr \<lparr>report_summary =
            \<lparr>period = [], total_spend_30d = 0, projected_spend_curr_month = 0,
             top_rising_categories = [], top_saving_opportunities = []\<rparr>,
          report_patterns =
            \<lparr>report_dow_peaks = [], report_time_buckets = [], report_merchant_hhi = [],
             report_small_leaks = [], cashflow_squeezes = []\<rparr>,
          report_recurring = [], anomalies = [], suggestions = [], challenges = []\<rparr>"
  apply (simp add: analyse_rows_def monthly_trends_empty pattern_mining_def detect_recurring_def
      detect_anomalies_def compute_variances_def build_suggestions_empty build_challenges_empty)
  apply (simp add: summarise_def ordered_months_def compute_top_rising_categories_def
      top_saving_opportunities_of_def empty_patterns_def empty_variances_def)
  done

text \<open>
  Claim C7. On an empty input batch the full pipeline \<open>analyse_spending\<close> does not raise:
  it returns a report (\<open>Inr\<close>) whose period is the empty string, whose 30-day spend total
  and current-month projection are 0, and whose rising categories, saving opportunities,
  pattern maps, recurring, anomaly, suggestion and challenge lists are all empty. The store
  is returned as it was.
\<close>

theorem analyse_spending_empty:
  "analyse_spending lib h [] =
     (Inr \<lparr>report_summary =
             \<lparr>period = [], total_spend_30d = 0, projected_spend_curr_month = 0,
              top_rising_categories = [], top_saving_opportunities = []\<rparr>,
           report_patterns =
             \<lparr>report_dow_peaks = [], report_time_buckets = [], report_merchant_hhi = [],
              report_small_leaks = [], cashflow_squeezes = []\<rparr>,
           report_recurring = [], anomalies = [], suggestions = [], challenges = []\<rparr>, h)"
  by (simp add: analyse_spending_def preprocess_def preprocess_transactions_def
      winsorise_spend_amounts_def rows_of_def analyse_rows_empty)

section \<open>Dictionaries\<close>

lemma map_of_upd_default:
  "map_of (upd_default k d f kvs) k' =
     (if k' = k then Some (f (case map_of kvs k of None \<Rightarrow> d | Some v \<Rightarrow> v)) else map_of kvs k')"
  by (induction kvs) auto

lemma fst_set_upd_default: "fst ` set (upd_default k d f kvs) = insert k (fst ` set kvs)"
  by (induction kvs) auto

lemma distinct_upd_default:
  "distinct (map fst kvs) \<Longrightarrow> distinct (map fst (upd_default k d f kvs))"
proof (induction kvs)
  case Nil
  then show ?case by simp
next
  case (Cons kv kvs)
  have "fst ` set (upd_default k d f kvs) = insert k (fst ` set kvs)"
    by (rule fst_set_upd_default)
  with Cons show ?case by auto
qed

section \<open>The store\<close>

lemma enrich_all_prefix:
  "enrich_all lib h as cleaned = (res, h') \<Longrightarrow> \<exists>ext. h' = h @ ext"
proof (induction as arbitrary: h cleaned)
  case Nil
  then show ?case by simp
next
  case (Cons a as)
  show ?case
  proof (cases "a < length h")
    case False
    with Cons.prems show ?thesis by simp
  next
    case True
    show ?thesis
    proof (cases "h ! a")
      case (Row r)
      with True Cons.prems show ?thesis by simp
    next
      case (Raw t)
      show ?thesis
      proof (cases "enrich lib t")
        case (Inl e)
        with True Raw Cons.prems show ?thesis by simp
      next
        case (Inr r)
        with True Raw Cons.prems
        have "enrich_all lib (h @ [Row r]) as (cleaned @ [length h]) = (res, h')" by simp
        from Cons.IH [OF this] obtain ext where "h' = (h @ [Row r]) @ ext" ..
        then show ?thesis by simp
      qed
    qed
  qed
qed

lemma enrich_all_result:
  "enrich_all lib h as cleaned = (Inr out, h') \<Longrightarrow>
     \<exists>rs. h' = h @ map Row rs \<and> out = cleaned @ [length h..<length h + length rs]
          \<and> length rs = length as
          \<and> list_all2 (\<lambda>a r. a < length h \<and> (\<exists>t. h ! a = Raw t \<and> enrich lib t = Inr r)) as rs"
proof (induction as arbitrary: h cleaned)
  case Nil
  then show ?case by simp
next
  case (Cons a as)
  from Cons.prems have lt: "a < length h"
    by (auto split: if_splits)
  from Cons.prems lt obtain t where raw: "h ! a = Raw t"
    by (cases "h ! a") auto
  from Cons.prems lt raw obtain r where en: "enrich lib t = Inr r"
    by (cases "enrich lib t") auto
  from Cons.prems lt raw en
  have "enrich_all lib (h @ [Row r]) as (cleaned @ [length h]) = (Inr out, h')" by simp
  from Cons.IH [OF this] obtain rs where
    h': "h' = (h @ [Row r]) @ map Row rs" and
    out: "out = (cleaned @ [length h]) @ [length (h @ [Row r])..<length (h @ [Row r]) + length rs]" and
    len: "length rs = length as" and
    all: "list_all2 (\<lambda>a r'. a < length (h @ [Row r])
            \<and> (\<exists>t. (h @ [Row r]) ! a = Raw t \<and> enrich lib t = Inr r')) as rs"
    by blast
  have all': "list_all2 (\<lambda>a r. a < length h \<and> (\<exists>t. h ! a = Raw t \<and> enrich lib t = Inr r)) as rs"
    using all
  proof (rule list_all2_mono)
    fix b r'
    assume b: "b < length (h @ [Row r]) \<and> (\<exists>t. (h @ [Row r]) ! b = Raw t \<and> enrich lib t = Inr r')"
    then obtain t' where t': "(h @ [Row r]) ! b = Raw t'" "enrich lib t' = Inr r'" by blast
    have "b \<noteq> length h"
    proof
      assume "b = length h"
      with t' show False by simp
    qed
    with b have "b < length h" by simp
    with t' show "b < length h \<and> (\<exists>t. h ! b = Raw t \<and> enrich lib t = Inr r')"
      by (auto simp: nth_append)
  qed
  have "[length h..<length h + length (r # rs)] = length h # [Suc (length h)..<Suc (length h) + length rs]"
    by (simp add: upt_rec)
  with h' out len all' lt raw en show ?case
    by (intro exI [of _ "r # rs"]) simp
qed

lemma category_values_rows:
  "category_values (map Row rs) acc =
     Inr (fold (\<lambda>r acc. if is_spend r
                         then upd_default (PStr (category r)) [] (\<lambda>vs. vs @ [\<bar>amount r\<bar>]) acc
                         else acc) rs acc)"
  by (induction rs arbitrary: acc) (simp_all add: obj_is_spend_def obj_category_def obj_amount_def)

lemma clip_amount_update [simp]:
  "clip_amount caps (r\<lparr>amount_winsorised := x\<rparr>) = clip_amount caps r"
  by (simp add: clip_amount_def)

lemma win_obj_idem [simp]: "win_obj caps (win_obj caps ob) = win_obj caps ob"
  by (cases ob) (simp_all add: win_obj_def)

lemma is_row_win_obj [simp]: "is_row (win_obj caps ob) = is_row ob"
  by (cases ob) (simp_all add: win_obj_def is_row_def)

lemma clip_obj_row: "is_row ob \<Longrightarrow> clip_obj caps ob = Inr (win_obj caps ob)"
  by (cases ob) (simp_all add: clip_obj_def win_obj_def is_row_def)

text \<open>The second loop writes only at the addresses of its list, whatever they hold.\<close>

lemma winsorise_write_frame:
  "winsorise_write caps h as = (res, h') \<Longrightarrow>
     length h' = length h \<and> (\<forall>i<length h. i \<notin> set as \<longrightarrow> h' ! i = h ! i)"
proof (induction as arbitrary: h)
  case Nil
  then show ?case by simp
next
  case (Cons a as)
  show ?case
  proof (cases "a < length h")
    case False
    with Cons.prems show ?thesis by simp
  next
    case True
    show ?thesis
    proof (cases "clip_obj caps (h ! a)")
      case (Inl e)
      with True Cons.prems show ?thesis by simp
    next
      case (Inr ob)
      with True Cons.prems have "winsorise_write caps (h[a := ob]) as = (res, h')" by simp
      from Cons.IH [OF this] show ?thesis by auto
    qed
  qed
qed

lemma winsorise_spend_amounts_frame:
  assumes "winsorise_spend_amounts h as q = (res, h')"
  shows "length h' = length h \<and> (\<forall>i<length h. i \<notin> set as \<longrightarrow> h' ! i = h ! i)"
proof (cases "list_all (\<lambda>a. a < length h) as")
  case False
  with assms show ?thesis by (simp add: winsorise_spend_amounts_def)
next
  case True
  show ?thesis
  proof (cases "category_values (map (\<lambda>a. h ! a) as) []")
    case (Inl e)
    with True assms show ?thesis by (simp add: winsorise_spend_amounts_def)
  next
    case (Inr pcv)
    with True assms have
      "winsorise_write (map (\<lambda>cv. (fst cv, percentile_value (snd cv) q)) pcv) h as = (res, h')"
      by (simp add: winsorise_spend_amounts_def)
    then show ?thesis by (rule winsorise_write_frame)
  qed
qed

text \<open>On enriched rows the second loop raises nothing and writes each row's clipped amount.\<close>

lemma winsorise_write_rows:
  "\<forall>a\<in>set as. a < length h \<and> is_row (h ! a) \<Longrightarrow>
     \<exists>h'. winsorise_write caps h as = (None, h') \<and> length h' = length h
          \<and> (\<forall>i<length h. h' ! i = (if i \<in> set as then win_obj caps (h ! i) else h ! i))"
proof (induction as arbitrary: h)
  case Nil
  then show ?case by simp
next
  case (Cons a as)
  let ?h1 = "h[a := win_obj caps (h ! a)]"
  from Cons.prems have a: "a < length h" "is_row (h ! a)" by simp_all
  then have step: "winsorise_write caps h (a # as) = winsorise_write caps ?h1 as"
    by (simp add: clip_obj_row)
  have "\<forall>b\<in>set as. b < length ?h1 \<and> is_row (?h1 ! b)"
    using Cons.prems by (auto simp: nth_list_update)
  from Cons.IH [OF this] obtain h' where w: "winsorise_write caps ?h1 as = (None, h')"
    and l: "length h' = length ?h1"
    and n: "\<forall>i<length ?h1. h' ! i = (if i \<in> set as then win_obj caps (?h1 ! i) else ?h1 ! i)"
    by blast
  have "\<forall>i<length h. h' ! i = (if i \<in> set (a # as) then win_obj caps (h ! i) else h ! i)"
  proof (intro allI impI)
    fix i
    assume i: "i < length h"
    with n have "h' ! i = (if i \<in> set as then win_obj caps (?h1 ! i) else ?h1 ! i)" by simp
    with i show "h' ! i = (if i \<in> set (a # as) then win_obj caps (h ! i) else h ! i)"
      by (cases "i = a") simp_all
  qed
  with step w l show ?case by simp
qed

lemma rows_of_fresh: "rows_of (h @ map Row rs) [length h..<length h + length rs] = rs"
proof -
  have "map (\<lambda>a. if a < length (h @ map Row rs)
                   then (case (h @ map Row rs) ! a of Row r \<Rightarrow> [r] | Raw _ \<Rightarrow> []) else [])
            [length h..<length h + length rs]
          = map (\<lambda>r. [r]) rs"
    by (rule nth_equalityI) (simp_all add: nth_append)
  then show ?thesis by (simp add: rows_of_def)
qed

lemma winsorise_fresh:
  "\<exists>h'. winsorise_spend_amounts (h @ map Row rs) [length h..<length h + length rs] q = (None, h')
        \<and> length h' = length h + length rs
        \<and> take (length h) h' = h
        \<and> rows_of h' [length h..<length h + length rs] =
            map (\<lambda>r. r\<lparr>amount_winsorised :=
                         Some (clip_amount
                                 (map (\<lambda>cv. (fst cv, percentile_value (snd cv) q))
                                      (per_category_values rs)) r)\<rparr>) rs"
proof -
  let ?h1 = "h @ map Row rs" and ?as = "[length h..<length h + length rs]"
  let ?caps = "map (\<lambda>cv. (fst cv, percentile_value (snd cv) q)) (per_category_values rs)"
  have objs: "map (\<lambda>a. ?h1 ! a) ?as = map Row rs"
    by (rule nth_equalityI) (simp_all add: nth_append)
  have all: "list_all (\<lambda>a. a < length ?h1) ?as"
    by (simp add: list_all_iff)
  have ws: "winsorise_spend_amounts ?h1 ?as q = winsorise_write ?caps ?h1 ?as"
    using all by (simp add: winsorise_spend_amounts_def objs category_values_rows
        per_category_values_def)
  have "\<forall>a\<in>set ?as. a < length ?h1 \<and> is_row (?h1 ! a)"
    by (auto simp: nth_append is_row_def)
  from winsorise_write_rows [OF this, of ?caps] obtain h' where
    w: "winsorise_write ?caps ?h1 ?as = (None, h')" and l: "length h' = length ?h1"
    and n: "\<forall>i<length ?h1. h' ! i = (if i \<in> set ?as then win_obj ?caps (?h1 ! i) else ?h1 ! i)"
    by blast
  have t: "take (length h) h' = h"
    by (rule nth_equalityI) (simp_all add: l n nth_append)
  have "map (\<lambda>a. if a < length h' then (case h' ! a of Row r \<Rightarrow> [r] | Raw _ \<Rightarrow> []) else []) ?as
          = map (\<lambda>r. [r\<lparr>amount_winsorised := Some (clip_amount ?caps r)\<rparr>]) rs"
    by (rule nth_equalityI) (simp_all add: l n nth_append win_obj_def)
  then have "rows_of h' ?as = map (\<lambda>r. r\<lparr>amount_winsorised := Some (clip_amount ?caps r)\<rparr>) rs"
    by (simp add: rows_of_def)
  with ws w l t show ?thesis by simp
qed

lemma preprocess_result:
  assumes "preprocess lib h txs = (Inr out, h')"
  shows "\<exists>rs. out = [length h..<length h + length rs] \<and> length rs = length txs
           \<and> list_all2 (\<lambda>a r. a < length h \<and> (\<exists>t. h ! a = Raw t \<and> enrich lib t = Inr r)) txs rs
           \<and> rows_of h' out =
               map (\<lambda>r. r\<lparr>amount_winsorised :=
                            Some (clip_amount
                                    (map (\<lambda>cv. (fst cv, percentile_value (snd cv) winsorise_percentile))
                                         (per_category_values rs)) r)\<rparr>) rs"
proof -
  from assms obtain h1 where e: "enrich_all lib h txs [] = (Inr out, h1)"
    and w: "winsorise_spend_amounts h1 out winsorise_percentile = (None, h')"
    by (auto simp: preprocess_def preprocess_transactions_def split: prod.splits sum.splits option.splits)
  from enrich_all_result [OF e] obtain rs where
    h1: "h1 = h @ map Row rs" and out: "out = [length h..<length h + length rs]"
    and len: "length rs = length txs"
    and all: "list_all2 (\<lambda>a r. a < length h \<and> (\<exists>t. h ! a = Raw t \<and> enrich lib t = Inr r)) txs rs"
    by auto
  from winsorise_fresh [of h rs winsorise_percentile] w
  have "rows_of h' out =
          map (\<lambda>r. r\<lparr>amount_winsorised :=
                       Some (clip_amount
                               (map (\<lambda>cv. (fst cv, percentile_value (snd cv) winsorise_percentile))
                                    (per_category_values rs)) r)\<rparr>) rs"
    unfolding h1 out by auto
  with out len all show ?thesis by blast
qed

lemma preprocess_error:
  assumes "preprocess lib h txs = (Inl e, h')"
  shows "enrich_all lib h txs [] = (Inl e, h')"
proof (cases "enrich_all lib h txs []")
  case (Pair res h1)
  show ?thesis
  proof (cases res)
    case (Inl e1)
    with Pair assms show ?thesis by (simp add: preprocess_def preprocess_transactions_def)
  next
    case (Inr out)
    with Pair have e: "enrich_all lib h txs [] = (Inr out, h1)" by simp
    from enrich_all_result [OF e] obtain rs where
      h1: "h1 = h @ map Row rs" and out: "out = [length h..<length h + length rs]"
      by auto
    from winsorise_fresh [of h rs winsorise_percentile] obtain h2 where
      "winsorise_spend_amounts h1 out winsorise_percentile = (None, h2)"
      unfolding h1 out by blast
    with e assms show ?thesis by (simp add: preprocess_def preprocess_transactions_def)
  qed
qed

lemma preprocess_frame:
  assumes "preprocess lib h txs = (res, h')"
  shows "take (length h) h' = h"
proof (cases "enrich_all lib h txs []")
  case (Pair res1 h1)
  from enrich_all_prefix [OF Pair] obtain ext where h1: "h1 = h @ ext" ..
  show ?thesis
  proof (cases res1)
    case (Inl e)
    with Pair assms have "h' = h1" by (simp add: preprocess_def preprocess_transactions_def)
    with h1 show ?thesis by simp
  next
    case (Inr out)
    with Pair have e: "enrich_all lib h txs [] = (Inr out, h1)" by simp
    from enrich_all_result [OF e] obtain rs where
      h1': "h1 = h @ map Row rs" and out: "out = [length h..<length h + length rs]"
      by auto
    obtain res2 h2 where w: "winsorise_spend_amounts h1 out winsorise_percentile = (res2, h2)"
      by (cases "winsorise_spend_amounts h1 out winsorise_percentile")
    with e assms have h': "h' = h2"
      by (cases res2) (simp_all add: preprocess_def preprocess_transactions_def)
    from winsorise_spend_amounts_frame [OF w]
    have l: "length h2 = length h1" and n: "\<forall>i<length h1. i \<notin> set out \<longrightarrow> h2 ! i = h1 ! i"
      by simp_all
    show ?thesis unfolding h'
    proof (rule nth_equalityI)
      show "length (take (length h) h2) = length h" by (simp add: l h1)
    next
      fix i
      assume "i < length (take (length h) h2)"
      then have i: "i < length h" by simp
      then have "i \<notin> set out" by (simp add: out)
      with i n have "h2 ! i = h1 ! i" by (simp add: h1)
      with i show "take (length h) h2 ! i = h ! i" by (simp add: h1 nth_append)
    qed
  qed
qed

section \<open>Winsorising\<close>

lemma percentile_value_nonneg:
  assumes "\<forall>x\<in>set vs. 0 \<le> x" and "0 \<le> q" and "q \<le> 1"
  shows "0 \<le> percentile_value vs q"
proof (cases "vs = [] \<or> length vs = 1")
  case True
  then show ?thesis
  proof
    assume "vs = []"
    then show ?thesis by (simp add: percentile_value_def)
  next
    assume l: "length vs = 1"
    then have "sort vs ! 0 \<in> set (sort vs)" by (intro nth_mem) simp
    with assms(1) l show ?thesis by (auto simp: percentile_value_def)
  qed
next
  case False
  let ?o = "sort vs"
  let ?pos = "(real (length ?o) - 1) * q"
  let ?lower = "nat \<lfloor>?pos\<rfloor>"
  let ?upper = "min (?lower + 1) (length ?o - 1)"
  let ?w = "?pos - real ?lower"
  from False have "length vs \<noteq> 0" "length vs \<noteq> 1" by auto
  then have n: "2 \<le> length vs" by linarith
  then have pos0: "0 \<le> ?pos" using assms(2) by simp
  have "?pos \<le> real (length vs) - 1"
    using assms(3) n by (simp add: mult_left_le)
  moreover have "of_int \<lfloor>?pos\<rfloor> \<le> ?pos" by (rule of_int_floor_le)
  ultimately have "(of_int \<lfloor>?pos\<rfloor> :: real) \<le> real (length vs) - 1" by linarith
  then have "(of_int \<lfloor>?pos\<rfloor> :: real) \<le> of_int (int (length vs) - 1)" by simp
  then have "\<lfloor>?pos\<rfloor> \<le> int (length vs) - 1" by (simp only: of_int_le_iff)
  then have lo: "?lower < length ?o" using n by simp
  have up: "?upper < length ?o" using n by simp
  have fl: "real ?lower = of_int \<lfloor>?pos\<rfloor>" using pos0 by simp
  have w0: "0 \<le> ?w" unfolding fl by linarith
  have w1: "?w \<le> 1" unfolding fl by linarith
  have a: "0 \<le> ?o ! ?lower" using assms(1) nth_mem [OF lo] by simp
  have b: "0 \<le> ?o ! ?upper" using assms(1) nth_mem [OF up] by simp
  have "0 \<le> ?o ! ?lower * (1 - ?w) + ?o ! ?upper * ?w"
    using a b w0 w1 by (intro add_nonneg_nonneg mult_nonneg_nonneg) simp_all
  with False show ?thesis by (simp add: percentile_value_def Let_def)
qed


lemma map_of_fold_append:
  "map_of (fold (\<lambda>r acc. if P r then upd_default (k r) [] (\<lambda>vs. vs @ [g r]) acc else acc) rs acc0) c =
     (case map_of acc0 c of
        None \<Rightarrow> (if map g (filter (\<lambda>r. P r \<and> k r = c) rs) = [] then None
                  else Some (map g (filter (\<lambda>r. P r \<and> k r = c) rs)))
      | Some v \<Rightarrow> Some (v @ map g (filter (\<lambda>r. P r \<and> k r = c) rs)))"
proof (induction rs arbitrary: acc0)
  case Nil
  then show ?case by (cases "map_of acc0 c") simp_all
next
  case (Cons r rs)
  show ?case
  proof (cases "P r \<and> k r = c")
    case True
    then show ?thesis
      by (cases "map_of acc0 c") (simp_all add: Cons.IH map_of_upd_default)
  next
    case False
    then have "map_of (if P r then upd_default (k r) [] (\<lambda>vs. vs @ [g r]) acc0 else acc0) c
                 = map_of acc0 c"
      by (auto simp: map_of_upd_default)
    moreover have "filter (\<lambda>r. P r \<and> k r = c) (r # rs) = filter (\<lambda>r. P r \<and> k r = c) rs"
      using False by simp
    ultimately show ?thesis
      by (simp only: fold_simps Cons.IH)
  qed
qed

lemma map_of_per_category_values:
  "map_of (per_category_values rs) (PStr c) =
     (if spend_magnitudes rs c = [] then None else Some (spend_magnitudes rs c))"
  by (simp add: per_category_values_def spend_magnitudes_def map_of_fold_append)

lemma map_of_map_snd:
  "map_of (map (\<lambda>cv. (fst cv, f (snd cv))) xs) c = map_option f (map_of xs c)"
  by (induction xs) auto

lemma spend_magnitude_mem:
  "r \<in> set rs \<Longrightarrow> is_spend r \<Longrightarrow> \<bar>amount r\<bar> \<in> set (spend_magnitudes rs (category r))"
  unfolding spend_magnitudes_def by (induction rs) auto


lemma cap_of_spend_row:
  assumes "r \<in> set rs" and "is_spend r"
  shows "dict_get (map (\<lambda>cv. (fst cv, percentile_value (snd cv) q)) (per_category_values rs))
           (PStr (category r)) d = percentile_value (spend_magnitudes rs (category r)) q"
proof -
  from assms have "\<bar>amount r\<bar> \<in> set (spend_magnitudes rs (category r))"
    by (rule spend_magnitude_mem)
  then have ne: "spend_magnitudes rs (category r) \<noteq> []" by auto
  have "map_of (map (\<lambda>cv. (fst cv, percentile_value (snd cv) q)) (per_category_values rs))
          (PStr (category r))
          = map_option (\<lambda>v. percentile_value v q) (map_of (per_category_values rs) (PStr (category r)))"
    by (rule map_of_map_snd)
  also have "\<dots> = Some (percentile_value (spend_magnitudes rs (category r)) q)"
    using ne by (simp add: map_of_per_category_values)
  finally show ?thesis by (simp add: dict_get_def)
qed


lemma spend_magnitudes_map:
  assumes "\<And>r. is_spend (u r) = is_spend r" "\<And>r. category (u r) = category r"
    "\<And>r. amount (u r) = amount r"
  shows "spend_magnitudes (map u rs) c = spend_magnitudes rs c"
  unfolding spend_magnitudes_def by (induction rs) (simp_all add: assms)

lemma spend_magnitudes_update:
  "spend_magnitudes (map (\<lambda>r. r\<lparr>amount_winsorised := f r\<rparr>) rs) c = spend_magnitudes rs c"
  by (rule spend_magnitudes_map) simp_all


text \<open>
  Claim C3. After pre-processing a batch that is accepted, every row has a winsorised
  amount. For a spend row its magnitude is at most the magnitude of the raw amount and at
  most the linear-interpolated 99th percentile of the absolute amounts of the spend rows of
  the row's normalised category, over the whole batch; for every other row (income or
  zero) it is the raw amount.
\<close>

theorem winsorised_amount_bounds:
  assumes "preprocess lib h txs = (Inr out, h')" and "r \<in> set (rows_of h' out)"
  shows "\<exists>w. amount_winsorised r = Some w \<and>
           (if is_spend r
            then \<bar>w\<bar> \<le> \<bar>amount r\<bar> \<and>
                 \<bar>w\<bar> \<le> percentile_value (spend_magnitudes (rows_of h' out) (category r)) (99 / 100)
            else w = amount r)"
proof -
  let ?caps = "\<lambda>rs. map (\<lambda>cv. (fst cv, percentile_value (snd cv) winsorise_percentile))
                          (per_category_values rs)"
  from preprocess_result [OF assms(1)] obtain rs where
    "out = [length h..<length h + length rs] \<and> length rs = length txs
       \<and> list_all2 (\<lambda>a r. a < length h \<and> (\<exists>t. h ! a = Raw t \<and> enrich lib t = Inr r)) txs rs
       \<and> rows_of h' out = map (\<lambda>r. r\<lparr>amount_winsorised := Some (clip_amount (?caps rs) r)\<rparr>) rs" ..
  then have rows:
    "rows_of h' out = map (\<lambda>r. r\<lparr>amount_winsorised := Some (clip_amount (?caps rs) r)\<rparr>) rs"
    by (elim conjE)
  from assms(2) have "r \<in> (\<lambda>r. r\<lparr>amount_winsorised := Some (clip_amount (?caps rs) r)\<rparr>) ` set rs"
    unfolding rows by simp
  then obtain r0 where r0: "r0 \<in> set rs"
    and r: "r = r0\<lparr>amount_winsorised := Some (clip_amount (?caps rs) r0)\<rparr>"
    by (rule imageE)
  have w: "amount_winsorised r = Some (clip_amount (?caps rs) r0)"
    and f: "is_spend r = is_spend r0" "amount r = amount r0" "category r = category r0"
    unfolding r by simp_all
  have mags: "spend_magnitudes (rows_of h' out) c = spend_magnitudes rs c" for c
    unfolding rows by (rule spend_magnitudes_update)
  show ?thesis
  proof (cases "is_spend r0")
    case False
    then have "clip_amount (?caps rs) r0 = amount r0" by (simp add: clip_amount_def)
    with False w f show ?thesis by simp
  next
    case True
    let ?cap = "percentile_value (spend_magnitudes rs (category r0)) winsorise_percentile"
    have cap: "dict_get (?caps rs) (PStr (category r0)) \<bar>amount r0\<bar> = ?cap"
      using r0 True by (rule cap_of_spend_row)
    have "\<forall>x\<in>set (spend_magnitudes rs (category r0)). 0 \<le> x"
      unfolding spend_magnitudes_def by auto
    then have "0 \<le> ?cap"
      by (rule percentile_value_nonneg) (simp_all add: winsorise_percentile_def)
    then have b: "\<bar>- min \<bar>amount r0\<bar> ?cap\<bar> \<le> \<bar>amount r0\<bar>" "\<bar>- min \<bar>amount r0\<bar> ?cap\<bar> \<le> ?cap"
      by simp_all
    have c: "clip_amount (?caps rs) r0 = - min \<bar>amount r0\<bar> ?cap"
      using True by (simp only: clip_amount_def cap if_True)
    have q: "percentile_value (spend_magnitudes (rows_of h' out) (category r)) (99 / 100) = ?cap"
      by (simp only: mags f winsorise_percentile_def)
    from b True show ?thesis
      unfolding q w c by (simp add: f)
  qed
qed

section \<open>Evaluating the examples\<close>

lemmas example_dt_defs =
  charge_dt1_def charge_dt2_def charge_dt3_def grocery_dt1_def grocery_dt2_def grocery_dt3_def
  grocery_dt4_def weekly_dt1_def weekly_dt2_def weekly_dt3_def weekly_dt4_def weekly_dt5_def
  weekly_dt6_def

lemmas calendar_defs = ymd2ord_def dt_ord_def days_before_year_def days_before_month_def
  is_leap_def

lemma parse_examples:
  "fromisoformat_basic ''2024-01-05T08:00:00+00:00'' = Some charge_dt1"
  "fromisoformat_basic ''2024-02-04T08:00:00+00:00'' = Some charge_dt2"
  "fromisoformat_basic ''2024-03-05T08:00:00+00:00'' = Some charge_dt3"
  "fromisoformat_basic ''2024-01-15T10:00:00+00:00'' = Some grocery_dt1"
  "fromisoformat_basic ''2024-02-15T10:00:00+00:00'' = Some grocery_dt2"
  "fromisoformat_basic ''2024-03-15T10:00:00+00:00'' = Some grocery_dt3"
  "fromisoformat_basic ''2024-04-10T10:00:00+00:00'' = Some grocery_dt4"
  "fromisoformat_basic ''2024-01-01T12:00:00+00:00'' = Some weekly_dt1"
  "fromisoformat_basic ''2024-01-08T12:00:00+00:00'' = Some weekly_dt2"
  "fromisoformat_basic ''2024-01-15T12:00:00+00:00'' = Some weekly_dt3"
  "fromisoformat_basic ''2024-01-22T12:00:00+00:00'' = Some weekly_dt4"
  "fromisoformat_basic ''2024-01-29T12:00:00+00:00'' = Some weekly_dt5"
  "fromisoformat_basic ''2024-02-05T12:00:00+00:00'' = Some weekly_dt6"
  by (simp_all add: fromisoformat_basic_def digit_of_def days_in_month_def is_leap_def example_dt_defs)

lemma fields_examples:
  "dt_year charge_dt1 = 2024" "dt_month charge_dt1 = 1" "dt_day charge_dt1 = 5" "dt_hour charge_dt1 = 8"
  "dt_year charge_dt2 = 2024" "dt_month charge_dt2 = 2" "dt_day charge_dt2 = 4" "dt_hour charge_dt2 = 8"
  "dt_year charge_dt3 = 2024" "dt_month charge_dt3 = 3" "dt_day charge_dt3 = 5" "dt_hour charge_dt3 = 8"
  "dt_year grocery_dt1 = 2024" "dt_month grocery_dt1 = 1" "dt_day grocery_dt1 = 15" "dt_hour grocery_dt1 = 10"
  "dt_year grocery_dt2 = 2024" "dt_month grocery_dt2 = 2" "dt_day grocery_dt2 = 15" "dt_hour grocery_dt2 = 10"
  "dt_year grocery_dt3 = 2024" "dt_month grocery_dt3 = 3" "dt_day grocery_dt3 = 15" "dt_hour grocery_dt3 = 10"
  "dt_year grocery_dt4 = 2024" "dt_month grocery_dt4 = 4" "dt_day grocery_dt4 = 10" "dt_hour grocery_dt4 = 10"
  "dt_year weekly_dt1 = 2024" "dt_month weekly_dt1 = 1" "dt_day weekly_dt1 = 1" "dt_hour weekly_dt1 = 12"
  "dt_year weekly_dt2 = 2024" "dt_month weekly_dt2 = 1" "dt_day weekly_dt2 = 8" "dt_hour weekly_dt2 = 12"
  "dt_year weekly_dt3 = 2024" "dt_month weekly_dt3 = 1" "dt_day weekly_dt3 = 15" "dt_hour weekly_dt3 = 12"
  "dt_year weekly_dt4 = 2024" "dt_month weekly_dt4 = 1" "dt_day weekly_dt4 = 22" "dt_hour weekly_dt4 = 12"
  "dt_year weekly_dt5 = 2024" "dt_month weekly_dt5 = 1" "dt_day weekly_dt5 = 29" "dt_hour weekly_dt5 = 12"
  "dt_year weekly_dt6 = 2024" "dt_month weekly_dt6 = 2" "dt_day weekly_dt6 = 5" "dt_hour weekly_dt6 = 12"
  by (simp_all add: example_dt_defs)

lemma ord_examples:
  "dt_ord charge_dt1 = 738890" "dt_ord charge_dt2 = 738920" "dt_ord charge_dt3 = 738950"
  "dt_ord grocery_dt1 = 738900" "dt_ord grocery_dt2 = 738931" "dt_ord grocery_dt3 = 738960"
  "dt_ord grocery_dt4 = 738986" "dt_ord weekly_dt1 = 738886" "dt_ord weekly_dt2 = 738893"
  "dt_ord weekly_dt3 = 738900" "dt_ord weekly_dt4 = 738907" "dt_ord weekly_dt5 = 738914"
  "dt_ord weekly_dt6 = 738921"
  by (simp_all add: calendar_defs fields_examples)

lemma week1_examples: "isoweek1monday 2024 = 738886" "isoweek1monday 2025 = 739250"
  by (simp_all add: isoweek1monday_def calendar_defs)

lemmas calendar_eval = isocalendar_def week1_examples ord_examples fields_examples
  dt_weekday_def start_of_week_def ord2ymd_def days_before_month_def is_leap_def Let_def
  dt_date_def

lemma calendar_charges:
  "isocalendar charge_dt1 = (2024, 1, 5)" "dt_weekday charge_dt1 = 4"
  "start_of_week charge_dt1 = (2024, 1, 1)" "dt_date charge_dt1 = (2024, 1, 5)"
  "isocalendar charge_dt2 = (2024, 5, 7)" "dt_weekday charge_dt2 = 6"
  "start_of_week charge_dt2 = (2024, 1, 29)" "dt_date charge_dt2 = (2024, 2, 4)"
  "isocalendar charge_dt3 = (2024, 10, 2)" "dt_weekday charge_dt3 = 1"
  "start_of_week charge_dt3 = (2024, 3, 4)" "dt_date charge_dt3 = (2024, 3, 5)"
  by (simp_all add: calendar_eval)

lemma calendar_groceries:
  "isocalendar grocery_dt1 = (2024, 3, 1)" "dt_weekday grocery_dt1 = 0"
  "start_of_week grocery_dt1 = (2024, 1, 15)" "dt_date grocery_dt1 = (2024, 1, 15)"
  "isocalendar grocery_dt2 = (2024, 7, 4)" "dt_weekday grocery_dt2 = 3"
  "start_of_week grocery_dt2 = (2024, 2, 12)" "dt_date grocery_dt2 = (2024, 2, 15)"
  "isocalendar grocery_dt3 = (2024, 11, 5)" "dt_weekday grocery_dt3 = 4"
  "start_of_week grocery_dt3 = (2024, 3, 11)" "dt_date grocery_dt3 = (2024, 3, 15)"
  "isocalendar grocery_dt4 = (2024, 15, 3)" "dt_weekday grocery_dt4 = 2"
  "start_of_week grocery_dt4 = (2024, 4, 8)" "dt_date grocery_dt4 = (2024, 4, 10)"
  by (simp_all add: calendar_eval)

lemma calendar_weekly:
  "isocalendar weekly_dt1 = (2024, 1, 1)" "dt_weekday weekly_dt1 = 0"
  "start_of_week weekly_dt1 = (2024, 1, 1)" "dt_date weekly_dt1 = (2024, 1, 1)"
  "isocalendar weekly_dt2 = (2024, 2, 1)" "dt_weekday weekly_dt2 = 0"
  "start_of_week weekly_dt2 = (2024, 1, 8)" "dt_date weekly_dt2 = (2024, 1, 8)"
  "isocalendar weekly_dt3 = (2024, 3, 1)" "dt_weekday weekly_dt3 = 0"
  "start_of_week weekly_dt3 = (2024, 1, 15)" "dt_date weekly_dt3 = (2024, 1, 15)"
  "isocalendar weekly_dt4 = (2024, 4, 1)" "dt_weekday weekly_dt4 = 0"
  "start_of_week weekly_dt4 = (2024, 1, 22)" "dt_date weekly_dt4 = (2024, 1, 22)"
  "isocalendar weekly_dt5 = (2024, 5, 1)" "dt_weekday weekly_dt5 = 0"
  "start_of_week weekly_dt5 = (2024, 1, 29)" "dt_date weekly_dt5 = (2024, 1, 29)"
  "isocalendar weekly_dt6 = (2024, 6, 1)" "dt_weekday weekly_dt6 = 0"
  "start_of_week weekly_dt6 = (2024, 2, 5)" "dt_date weekly_dt6 = (2024, 2, 5)"
  by (simp_all add: calendar_eval)

lemma strings_examples:
  "normalise_category (Some (PStr ''entertainment'')) = Inr ''entertainment''"
  "normalise_category (Some (PStr ''groceries'')) = Inr ''groceries''"
  "py_strip ''Netflix'' = ''Netflix''" "py_lower ''Netflix'' = ''netflix''"
  "py_strip ''Tesco'' = ''Tesco''" "py_lower ''Tesco'' = ''tesco''"
  "time_of_day_bucket 8 = ''morning''" "time_of_day_bucket 10 = ''morning''"
  "time_of_day_bucket 12 = ''afternoon''"
  by (simp_all add: normalise_category_def or_default_str_def py_strip_def py_lower_def
      py_lower_char_def py_isspace_def dict_get_def CATEGORY_ALIASES_def time_of_day_bucket_def
      Let_def)

lemma month_text_examples:
  "strftime_ym 2024 1 = ''2024-01''" "strftime_ym 2024 2 = ''2024-02''"
  "strftime_ym 2024 3 = ''2024-03''" "strftime_ym 2024 4 = ''2024-04''"
  "strftime_ym 2023 4 = ''2023-04''" "strftime_ym 2024 5 = ''2024-05''"
  "strftime_ym 999 2 = ''999-02''" "strftime_ym 1000 2 = ''1000-02''"
  "strftime_ym 999 1 = ''999-01''" "strftime_ym 2024 (Suc 0) = ''2024-01''"
  by (simp_all add: strftime_ym_def fmt_digit_def)

lemma month_parse_examples:
  "strptime_ym ''2024-01'' = Inr (2024, 1)" "strptime_ym ''2024-02'' = Inr (2024, 2)"
  "strptime_ym ''2024-03'' = Inr (2024, 3)" "strptime_ym ''2024-04'' = Inr (2024, 4)"
  "strptime_ym ''1000-01'' = Inr (1000, 1)" "strptime_ym ''0999-02'' = Inr (999, 2)"
  "strptime_ym ''999-02'' = Inl DateOutOfRange"
  by (simp_all add: strptime_ym_def digit_of_def)

lemmas enrich_eval = enrich_def tx_def example_lib_def parse_iso_ts_def parse_examples
  DISPLAY_CURRENCY_def or_default_str_def fields_examples calendar_charges calendar_groceries
  calendar_weekly strings_examples month_text_examples Let_def

lemma enrich_charges:
  "enrich example_lib (charge_tx1 a) = Inr (charge_row1 a)"
  "enrich example_lib (charge_tx2 a) = Inr (charge_row2 a)"
  "enrich example_lib (charge_tx3 a) = Inr (charge_row3 a)"
  by (simp_all add: enrich_eval charge_tx1_def charge_tx2_def charge_tx3_def
      charge_row1_def charge_row2_def charge_row3_def)

lemma enrich_groceries:
  "enrich example_lib grocery_tx1 = Inr grocery_row1"
  "enrich example_lib grocery_tx2 = Inr grocery_row2"
  "enrich example_lib grocery_tx3 = Inr grocery_row3"
  "enrich example_lib grocery_tx4 = Inr grocery_row4"
  by (simp_all add: enrich_eval grocery_tx1_def grocery_tx2_def grocery_tx3_def grocery_tx4_def
      grocery_row1_def grocery_row2_def grocery_row3_def grocery_row4_def)

lemma enrich_weekly:
  "enrich example_lib weekly_tx1 = Inr weekly_row1"
  "enrich example_lib weekly_tx2 = Inr weekly_row2"
  "enrich example_lib weekly_tx3 = Inr weekly_row3"
  "enrich example_lib weekly_tx4 = Inr weekly_row4"
  "enrich example_lib weekly_tx5 = Inr weekly_row5"
  "enrich example_lib weekly_tx6 = Inr weekly_row6"
  by (simp_all add: enrich_eval weekly_tx1_def weekly_tx2_def weekly_tx3_def weekly_tx4_def
      weekly_tx5_def weekly_tx6_def weekly_row1_def weekly_row2_def weekly_row3_def
      weekly_row4_def weekly_row5_def weekly_row6_def)

lemma percentile_three_equal: "percentile_value [x, x, x] (99 / 100) = x"
proof -
  have "\<lfloor>198 / 100 :: real\<rfloor> = 1" by simp
  then show ?thesis
    by (simp add: percentile_value_def Let_def algebra_simps)
qed

lemma charge_fields:
  "is_spend (charge_row1 a) = (a < 0)" "is_spend (charge_row2 a) = (a < 0)"
  "is_spend (charge_row3 a) = (a < 0)"
  "category (charge_row1 a) = ''entertainment''" "category (charge_row2 a) = ''entertainment''"
  "category (charge_row3 a) = ''entertainment''"
  "amount (charge_row1 a) = a" "amount (charge_row2 a) = a" "amount (charge_row3 a) = a"
  by (simp_all add: charge_row1_def charge_row2_def charge_row3_def)

lemmas winsorise_eval = winsorise_spend_amounts_def obj_is_spend_def obj_category_def
  obj_amount_def clip_obj_def clip_amount_def dict_get_def winsorise_percentile_def

lemma preprocess_charges:
  assumes "a < 0"
  shows "preprocess example_lib (charge_batch a) [0, 1, 2] =
     (Inr [3, 4, 5], charge_batch a @ map Row (charge_rows a))"
proof -
  let ?h1 = "charge_batch a @ [Row (charge_row1 a), Row (charge_row2 a), Row (charge_row3 a)]"
  have e: "enrich_all example_lib (charge_batch a) [0, 1, 2] [] = (Inr [3, 4, 5], ?h1)"
    by (simp add: charge_batch_def enrich_charges)
  have w: "winsorise_spend_amounts ?h1 [3, 4, 5] winsorise_percentile =
             (None, charge_batch a @ map Row (charge_rows a))"
    using assms
    by (simp add: charge_batch_def charge_rows_def winsorise_eval charge_fields
        percentile_three_equal winsorised_def)
  show ?thesis
    by (simp only: preprocess_def preprocess_transactions_def e w prod.case sum.case option.case)
qed

lemma percentile_groceries: "percentile_value [50, 50, 50, 55] (99 / 100) = 1097 / 20"
proof -
  have "\<lfloor>297 / 100 :: real\<rfloor> = 2" by simp
  then show ?thesis
    by (simp add: percentile_value_def Let_def)
qed

lemma grocery_fields:
  "is_spend grocery_row1" "is_spend grocery_row2" "is_spend grocery_row3" "is_spend grocery_row4"
  "category grocery_row1 = ''groceries''" "category grocery_row2 = ''groceries''"
  "category grocery_row3 = ''groceries''" "category grocery_row4 = ''groceries''"
  "amount grocery_row1 = - 50" "amount grocery_row2 = - 50" "amount grocery_row3 = - 50"
  "amount grocery_row4 = - 55"
  "month_key grocery_row1 = ''2024-01''" "month_key grocery_row2 = ''2024-02''"
  "month_key grocery_row3 = ''2024-03''" "month_key grocery_row4 = ''2024-04''"
  "date grocery_row4 = (2024, 4, 10)"
  by (simp_all add: grocery_row1_def grocery_row2_def grocery_row3_def grocery_row4_def)

lemma preprocess_groceries:
  "preprocess example_lib grocery_batch [0, 1, 2, 3] =
     (Inr [4, 5, 6, 7], grocery_batch @ map Row grocery_rows)"
proof -
  let ?h1 = "grocery_batch @ [Row grocery_row1, Row grocery_row2, Row grocery_row3, Row grocery_row4]"
  have e: "enrich_all example_lib grocery_batch [0, 1, 2, 3] [] = (Inr [4, 5, 6, 7], ?h1)"
    by (simp add: grocery_batch_def enrich_groceries)
  have w: "winsorise_spend_amounts ?h1 [4, 5, 6, 7] winsorise_percentile =
             (None, grocery_batch @ map Row grocery_rows)"
    by (simp add: grocery_batch_def grocery_rows_def winsorise_eval grocery_fields
        percentile_groceries winsorised_def)
  show ?thesis
    by (simp only: preprocess_def preprocess_transactions_def e w prod.case sum.case option.case)
qed

lemma rows_of_groceries:
  "rows_of (grocery_batch @ map Row grocery_rows) [4, 5, 6, 7] = grocery_rows"
  by (simp add: rows_of_def grocery_batch_def grocery_rows_def)

theorem winsorised_amount_bounds_witness:
  "\<exists>w. amount_winsorised (grocery_rows ! 3) = Some w \<and> amount (grocery_rows ! 3) = - 55
       \<and> \<bar>w\<bar> \<le> 55 \<and> \<bar>w\<bar> \<le> 1097 / 20"
proof -
  have "grocery_rows ! 3 \<in> set (rows_of (grocery_batch @ map Row grocery_rows) [4, 5, 6, 7])"
    unfolding rows_of_groceries by (simp add: grocery_rows_def)
  from winsorised_amount_bounds [OF preprocess_groceries this]
  show ?thesis
    by (simp add: rows_of_groceries)
       (simp add: grocery_rows_def spend_magnitudes_def grocery_fields winsorised_def
          percentile_groceries)
qed

lemma percentile_weekly: "percentile_value [100, 100, 100, 100, 100, 300] (99 / 100) = 290"
proof -
  have "\<lfloor>495 / 100 :: real\<rfloor> = 4" by simp
  then show ?thesis
    by (simp add: percentile_value_def Let_def)
qed

lemma weekly_fields:
  "is_spend weekly_row1" "is_spend weekly_row2" "is_spend weekly_row3" "is_spend weekly_row4"
  "is_spend weekly_row5" "is_spend weekly_row6"
  "category weekly_row1 = ''groceries''" "category weekly_row2 = ''groceries''"
  "category weekly_row3 = ''groceries''" "category weekly_row4 = ''groceries''"
  "category weekly_row5 = ''groceries''" "category weekly_row6 = ''groceries''"
  "amount weekly_row1 = - 100" "amount weekly_row2 = - 100" "amount weekly_row3 = - 100"
  "amount weekly_row4 = - 100" "amount weekly_row5 = - 100" "amount weekly_row6 = - 300"
  "week_key weekly_row1 = (2024, 1)" "week_key weekly_row2 = (2024, 2)"
  "week_key weekly_row3 = (2024, 3)" "week_key weekly_row4 = (2024, 4)"
  "week_key weekly_row5 = (2024, 5)" "week_key weekly_row6 = (2024, 6)"
  by (simp_all add: weekly_row1_def weekly_row2_def weekly_row3_def weekly_row4_def
      weekly_row5_def weekly_row6_def)

lemma preprocess_weekly:
  "preprocess example_lib weekly_batch [0, 1, 2, 3, 4, 5] =
     (Inr [6, 7, 8, 9, 10, 11], weekly_batch @ map Row weekly_rows)"
proof -
  let ?h1 = "weekly_batch @ [Row weekly_row1, Row weekly_row2, Row weekly_row3, Row weekly_row4,
                             Row weekly_row5, Row weekly_row6]"
  have e: "enrich_all example_lib weekly_batch [0, 1, 2, 3, 4, 5] [] =
             (Inr [6, 7, 8, 9, 10, 11], ?h1)"
    by (simp add: weekly_batch_def enrich_weekly)
  have w: "winsorise_spend_amounts ?h1 [6, 7, 8, 9, 10, 11] winsorise_percentile =
             (None, weekly_batch @ map Row weekly_rows)"
    by (simp add: weekly_batch_def weekly_rows_def winsorise_eval weekly_fields
        percentile_weekly winsorised_def)
  show ?thesis
    by (simp only: preprocess_def preprocess_transactions_def e w prod.case sum.case option.case)
qed

lemma rows_of_weekly:
  "rows_of (weekly_batch @ map Row weekly_rows) [6, 7, 8, 9, 10, 11] = weekly_rows"
  by (simp add: rows_of_def weekly_batch_def weekly_rows_def)

section \<open>The caller's mappings\<close>

lemma analyse_spending_store:
  "snd (analyse_spending lib h txs) = snd (preprocess lib h txs)"
  by (simp add: analyse_spending_def split: prod.splits sum.splits)

lemma preprocess_fresh:
  assumes "preprocess lib h txs = (Inr out, h')"
  shows "\<forall>a\<in>set out. length h \<le> a \<and> a < length h'"
proof -
  from assms obtain h1 where e: "enrich_all lib h txs [] = (Inr out, h1)"
    and w: "winsorise_spend_amounts h1 out winsorise_percentile = (None, h')"
    by (auto simp: preprocess_def preprocess_transactions_def split: prod.splits sum.splits option.splits)
  from enrich_all_result [OF e] obtain rs where
    h1: "h1 = h @ map Row rs" and out: "out = [length h..<length h + length rs]"
    by auto
  from winsorise_spend_amounts_frame [OF w] have "length h' = length h1" by simp
  with h1 out show ?thesis by simp
qed

text \<open>
  The winsorising pass itself writes into whatever mapping it is handed: applied to a
  caller's mapping it adds the key \<open>amount_winsorised\<close> to it.
\<close>

lemma winsorise_writes_its_argument:
  "winsorise_spend_amounts [Raw nocurrency_tx] [0] q =
     (None, [Raw (nocurrency_tx(''amount_winsorised'' \<mapsto> PFloat (- 50)))])"
  by (simp add: winsorise_eval nocurrency_tx_def)

text \<open>
  Claim C10. Pre-processing and the full pipeline never write into the caller's
  transaction mappings: whatever the batch, and whether the call returns a result or an
  error, every object of the store that existed before the call is the same after it, with
  the same keys and values. Each enriched row is a new object, at an address the store did
  not have before the call, and the winsorising pass is handed the addresses of those new
  objects only.
\<close>

theorem caller_mappings_unchanged:
  "take (length h) (snd (preprocess lib h txs)) = h \<and>
   take (length h) (snd (analyse_spending lib h txs)) = h \<and>
   (fst (preprocess lib h txs) = Inr out \<longrightarrow>
      (\<forall>a\<in>set out. length h \<le> a \<and> a < length (snd (preprocess lib h txs))))"
proof (intro conjI impI)
  show p: "take (length h) (snd (preprocess lib h txs)) = h"
    using preprocess_frame [of lib h txs "fst (preprocess lib h txs)" "snd (preprocess lib h txs)"]
    by simp
  show "take (length h) (snd (analyse_spending lib h txs)) = h"
    unfolding analyse_spending_store by (rule p)
next
  assume "fst (preprocess lib h txs) = Inr out"
  then have "preprocess lib h txs = (Inr out, snd (preprocess lib h txs))"
    by (cases "preprocess lib h txs") simp
  then show "\<forall>a\<in>set out. length h \<le> a \<and> a < length (snd (preprocess lib h txs))"
    by (rule preprocess_fresh)
qed

theorem caller_mappings_unchanged_witness:
  "fst (preprocess example_lib grocery_batch [0, 1, 2, 3]) = Inr [4, 5, 6, 7] \<and>
   length grocery_batch = 4 \<and>
   length (snd (preprocess example_lib grocery_batch [0, 1, 2, 3])) = 8 \<and>
   take 4 (snd (preprocess example_lib grocery_batch [0, 1, 2, 3])) = grocery_batch \<and>
   take 4 (snd (analyse_spending example_lib grocery_batch [0, 1, 2, 3])) = grocery_batch"
proof -
  have l: "length grocery_batch = 4" by (simp add: grocery_batch_def)
  have f: "fst (preprocess example_lib grocery_batch [0, 1, 2, 3]) = Inr [4, 5, 6, 7]"
    unfolding preprocess_groceries by simp
  have n: "length (snd (preprocess example_lib grocery_batch [0, 1, 2, 3])) = 8"
    unfolding preprocess_groceries by (simp add: grocery_batch_def grocery_rows_def)
  note c = caller_mappings_unchanged [of grocery_batch example_lib "[0, 1, 2, 3]" "[4, 5, 6, 7]"]
  from c have "take (length grocery_batch) (snd (preprocess example_lib grocery_batch [0, 1, 2, 3]))
                 = grocery_batch"
    by (rule conjunct1)
  then have a: "take 4 (snd (preprocess example_lib grocery_batch [0, 1, 2, 3])) = grocery_batch"
    unfolding l .
  from c have "take (length grocery_batch)
                 (snd (analyse_spending example_lib grocery_batch [0, 1, 2, 3])) = grocery_batch"
    by (elim conjE)
  then have b: "take 4 (snd (analyse_spending example_lib grocery_batch [0, 1, 2, 3])) = grocery_batch"
    unfolding l .
  from f l n a b show ?thesis by (intro conjI)
qed

section \<open>Currency validation\<close>

lemma py_float_error: "py_float lib v = Inl e \<Longrightarrow> e \<noteq> UnsupportedCurrency"
  by (cases v) (auto split: option.splits if_splits)

lemma parse_iso_ts_error: "parse_iso_ts lib v = Inl e \<Longrightarrow> e = InvalidTimestamp"
  by (cases v) (auto simp: parse_iso_ts_def Let_def split: option.splits)

lemma or_default_str_error: "or_default_str v d = Inl e \<Longrightarrow> e = InvalidField"
  by (auto simp: or_default_str_def split: option.splits if_splits pyval.splits)

lemma normalise_category_error: "normalise_category v = Inl e \<Longrightarrow> e = InvalidField"
  by (auto simp: normalise_category_def Let_def split: sum.splits dest: or_default_str_error)

lemma enrich_currency_error:
  "(enrich lib t = Inl UnsupportedCurrency) =
     ((\<exists>x. py_float lib (amount_field t) = Inr x) \<and>
      (\<exists>c. t ''currency'' = Some c \<and> c \<noteq> PStr DISPLAY_CURRENCY))"
proof (cases "py_float lib (amount_field t)")
  case (Inl e)
  then have "e \<noteq> UnsupportedCurrency" by (rule py_float_error)
  with Inl show ?thesis by (simp add: enrich_def amount_field_def)
next
  case (Inr x)
  show ?thesis
  proof (cases "\<exists>c. t ''currency'' = Some c \<and> c \<noteq> PStr DISPLAY_CURRENCY")
    case True
    with Inr show ?thesis by (auto simp: enrich_def amount_field_def Let_def)
  next
    case False
    then have cur: "(case t ''currency'' of None \<Rightarrow> PStr DISPLAY_CURRENCY | Some c \<Rightarrow> c)
                      = PStr DISPLAY_CURRENCY"
      by (cases "t ''currency''") auto
    have "enrich lib t \<noteq> Inl UnsupportedCurrency"
    proof
      assume a: "enrich lib t = Inl UnsupportedCurrency"
      show False
      proof (cases "t ''ts''")
        case None
        with a Inr cur show False by (simp add: enrich_def amount_field_def)
      next
        case (Some tsv)
        show False
        proof (cases "py_truthy tsv")
          case False
          with a Inr cur Some show False by (simp add: enrich_def amount_field_def)
        next
          case True
          show False
          proof (cases "parse_iso_ts lib tsv")
            case (Inl e)
            with a Inr cur Some True parse_iso_ts_error [OF Inl] show False
              by (simp add: enrich_def amount_field_def)
          next
            case d: (Inr d)
            show False
            proof (cases "normalise_category (t ''category'')")
              case (Inl e)
              with a Inr cur Some True d normalise_category_error [OF Inl] show False
                by (simp add: enrich_def amount_field_def)
            next
              case c: (Inr cat)
              show False
              proof (cases "or_default_str (t ''merchant'') ''unknown''")
                case (Inl e)
                with a Inr cur Some True d c or_default_str_error [OF Inl] show False
                  by (simp add: enrich_def amount_field_def)
              next
                case m: (Inr m0)
                with a Inr cur Some True d c show False
                  by (simp add: enrich_def amount_field_def Let_def)
              qed
            qed
          qed
        qed
      qed
    qed
    with False show ?thesis by simp
  qed
qed

lemma enrich_all_currency_error:
  "enrich_all lib h as cleaned = (Inl UnsupportedCurrency, h') \<Longrightarrow>
     \<exists>t. Raw t \<in> set h \<and> enrich lib t = Inl UnsupportedCurrency"
proof (induction as arbitrary: h cleaned)
  case Nil
  then show ?case by simp
next
  case (Cons a as)
  from Cons.prems have lt: "a < length h"
    by (auto split: if_splits)
  from Cons.prems lt obtain t where raw: "h ! a = Raw t"
    by (cases "h ! a") auto
  from lt raw have mem: "Raw t \<in> set h" by (metis nth_mem)
  show ?case
  proof (cases "enrich lib t")
    case (Inl e)
    with Cons.prems lt raw have "e = UnsupportedCurrency" by simp
    with Inl mem show ?thesis by blast
  next
    case (Inr r)
    with Cons.prems lt raw
    have "enrich_all lib (h @ [Row r]) as (cleaned @ [length h]) = (Inl UnsupportedCurrency, h')"
      by simp
    from Cons.IH [OF this] obtain t' where "Raw t' \<in> set (h @ [Row r])"
      and "enrich lib t' = Inl UnsupportedCurrency" by blast
    then show ?thesis by auto
  qed
qed


text \<open>
  Claim C8. A transaction with no currency field passes the currency validation: the
  missing currency is read as the display currency. The error for an unsupported currency
  is raised exactly for a transaction whose amount converts and whose currency field is
  present with a value other than the display currency; and a batch is rejected with that
  error only if it holds such a transaction.
\<close>

theorem currency_validation:
  "(enrich lib t = Inl UnsupportedCurrency) =
     ((\<exists>x. py_float lib (amount_field t) = Inr x) \<and>
      (\<exists>c. t ''currency'' = Some c \<and> c \<noteq> PStr DISPLAY_CURRENCY)) \<and>
   (fst (preprocess lib h txs) = Inl UnsupportedCurrency \<longrightarrow>
      (\<exists>t c. Raw t \<in> set h \<and> t ''currency'' = Some c \<and> c \<noteq> PStr DISPLAY_CURRENCY))"
proof (intro conjI impI)
  show "(enrich lib t = Inl UnsupportedCurrency) =
     ((\<exists>x. py_float lib (amount_field t) = Inr x) \<and>
      (\<exists>c. t ''currency'' = Some c \<and> c \<noteq> PStr DISPLAY_CURRENCY))"
    by (rule enrich_currency_error)
next
  assume "fst (preprocess lib h txs) = Inl UnsupportedCurrency"
  then have "preprocess lib h txs = (Inl UnsupportedCurrency, snd (preprocess lib h txs))"
    by (cases "preprocess lib h txs") simp
  then have "enrich_all lib h txs [] = (Inl UnsupportedCurrency, snd (preprocess lib h txs))"
    by (rule preprocess_error)
  from enrich_all_currency_error [OF this] obtain t0 where
    "Raw t0 \<in> set h" and "enrich lib t0 = Inl UnsupportedCurrency" by blast
  then show "\<exists>t c. Raw t \<in> set h \<and> t ''currency'' = Some c \<and> c \<noteq> PStr DISPLAY_CURRENCY"
    unfolding enrich_currency_error by blast
qed

lemma enrich_nocurrency:
  "enrich example_lib nocurrency_tx = Inr (grocery_row1\<lparr>extra := nocurrency_tx\<rparr>)"
  by (simp add: enrich_eval nocurrency_tx_def grocery_row1_def)

lemma enrich_usd: "enrich example_lib usd_tx = Inl UnsupportedCurrency"
  by (simp add: enrich_def usd_tx_def example_lib_def DISPLAY_CURRENCY_def)

lemma preprocess_currency_batch:
  "fst (preprocess example_lib currency_batch [0, 1]) = Inl UnsupportedCurrency"
  by (simp add: preprocess_def preprocess_transactions_def currency_batch_def enrich_nocurrency
      enrich_usd)

theorem currency_validation_witness:
  "enrich example_lib nocurrency_tx = Inr (grocery_row1\<lparr>extra := nocurrency_tx\<rparr>) \<and>
   nocurrency_tx ''currency'' = None \<and>
   fst (preprocess example_lib currency_batch [0, 1]) = Inl UnsupportedCurrency \<and>
   (\<exists>t c. Raw t \<in> set currency_batch \<and> t ''currency'' = Some c \<and> c \<noteq> PStr DISPLAY_CURRENCY)"
proof -
  have "fst (preprocess example_lib currency_batch [0, 1]) = Inl UnsupportedCurrency \<longrightarrow>
          (\<exists>t c. Raw t \<in> set currency_batch \<and> t ''currency'' = Some c \<and> c \<noteq> PStr DISPLAY_CURRENCY)"
    using currency_validation [of example_lib usd_tx currency_batch "[0, 1]"] by (rule conjunct2)
  then have "\<exists>t c. Raw t \<in> set currency_batch \<and> t ''currency'' = Some c \<and> c \<noteq> PStr DISPLAY_CURRENCY"
    using preprocess_currency_batch by (rule mp)
  moreover have "nocurrency_tx ''currency'' = None" by (simp add: nocurrency_tx_def)
  ultimately show ?thesis
    using enrich_nocurrency preprocess_currency_batch by (intro conjI)
qed

section \<open>The forecast\<close>

lemma digit_of_le: "digit_of c = Some d \<Longrightarrow> d \<le> 9"
  by (auto simp: digit_of_def split: if_splits)

lemma num_of_bound: "num_of cs acc = Some n \<Longrightarrow> n < 10 ^ length cs * (acc + 1)"
proof (induction cs arbitrary: acc)
  case Nil
  then show ?case by simp
next
  case (Cons c cs)
  from Cons.prems obtain d where d: "digit_of c = Some d" and n: "num_of cs (10 * acc + d) = Some n"
    by (auto split: option.splits)
  from d have "d \<le> 9" by (rule digit_of_le)
  then have "10 * acc + d + 1 \<le> 10 * (acc + 1)" by simp
  then have "10 ^ length cs * (10 * acc + d + 1) \<le> 10 ^ length cs * (10 * (acc + 1))"
    by (rule mult_le_mono2)
  with Cons.IH [OF n] have "n < 10 ^ length cs * (10 * (acc + 1))" by linarith
  then show ?case by (simp add: algebra_simps)
qed

lemma strptime_ym_range:
  assumes "strptime_ym s = Inr m"
  shows "1 \<le> fst m \<and> fst m \<le> 9999 \<and> 1 \<le> snd m \<and> snd m \<le> 12"
proof -
  from assms obtain y mo where y: "num_of (take 4 s) 0 = Some y"
    and m: "m = (y, mo)" and r: "1 \<le> y" "1 \<le> mo" "mo \<le> 12"
    by (auto simp: strptime_ym_def split: if_splits option.splits)
  from num_of_bound [OF y] have "y < 10 ^ length (take 4 s)" by simp
  also have "\<dots> \<le> 10 ^ 4" by (rule power_increasing) simp_all
  finally have "y \<le> 9999" by simp
  with m r show ?thesis by simp
qed

lemma add_months_next:
  assumes "1 \<le> fst m" "fst m \<le> 9999" "1 \<le> snd m" "snd m \<le> 12"
  shows "add_months m 1 = (if m = (9999, 12) then Inl DateOutOfRange else Inr (next_month_of m))"
proof (cases "snd m = 12")
  case True
  with assms show ?thesis
    by (cases m) (auto simp: add_months_def next_month_of_def Let_def)
next
  case False
  with assms have "int (snd m) div 12 = 0" "int (snd m) mod 12 = int (snd m)" by auto
  with assms False show ?thesis
    by (cases m) (auto simp: add_months_def next_month_of_def Let_def)
qed

lemma add_months_seasonal:
  assumes "1 \<le> fst m" "fst m \<le> 9999" "1 \<le> snd m" "snd m \<le> 12" "m \<noteq> (9999, 12)"
  shows "add_months (next_month_of m) (- 12) =
           (if fst m = 1 \<and> snd m \<noteq> 12 then Inl DateOutOfRange else Inr (seasonal_of m))"
proof (cases "snd m = 12")
  case True
  with assms have "fst m \<noteq> 9999" by (cases m) auto
  with assms True show ?thesis
    by (auto simp: add_months_def next_month_of_def seasonal_of_def Let_def)
next
  case False
  with assms have "(int (snd m) - 12) div 12 = - 1" "(int (snd m) - 12) mod 12 = int (snd m)"
    by (auto simp: div_eq_minus1 zmod_minus1 zdiv_eq_0_iff mod_pos_neg_trivial)
  with assms False show ?thesis
    by (auto simp: add_months_def next_month_of_def seasonal_of_def Let_def nat_diff_distrib)
qed

lemma forecast_three_months:
  "map_of three_months ''2023-04'' = None \<and>
   forecast_next_month three_months =
     Inr (Some \<lparr>fc_month = ''2024-04'', primary_model = ''seasonal_naive'', primary_value = Some 60,
                backstop_model = ''moving_average'', backstop_value = Some 30\<rparr>)"
  by (simp add: three_months_def forecast_next_month_def month_parse_examples add_months_def
      month_text_examples Let_def)

text \<open>
  Claim C2, as stated, fails: for the series 10, 20, 60 of January to March 2024 the value
  twelve months before the forecast month (April 2023) is absent, yet the primary model is
  not the moving average (30) but \<open>seasonal_naive\<close>, with the last observed value 60; the
  moving average is the backstop.
\<close>

theorem forecast_fallback_counterexample:
  "map_of three_months ''2023-04'' = None \<and>
   forecast_next_month three_months =
     Inr (Some \<lparr>fc_month = ''2024-04'', primary_model = ''seasonal_naive'', primary_value = Some 60,
                backstop_model = ''moving_average'', backstop_value = Some 30\<rparr>)"
  by (rule forecast_three_months)

text \<open>
  Claim C2, amended. The forecast of the empty series is nothing. For a non-empty series
  the forecast raises when the last month key is no text that \<open>strptime\<close> reads with
  \<open>%Y-%m\<close> (four digits of a year from 0001 to 9999, a hyphen, a month from 1 to 12), and
  when the last month is December 9999 or a month of year 1 other than December (the
  forecast month, or the month twelve months before it, is then outside the years 1 to
  9999). Otherwise a forecast is returned, for the month after the last one: its primary
  model is always \<open>seasonal_naive\<close>, whose value is the one the series records under the
  key of the month twelve months before the forecast month when it has that key, and the
  last observed value otherwise; its backstop is always \<open>moving_average\<close>, the mean of the
  last three values, absent when the series has fewer than three months. The moving
  average is never the primary model. Keys are the texts \<open>strftime\<close> prints, without
  padding of the year.
\<close>

theorem forecast_next_month_value:
  "forecast_next_month series =
     (if series = [] then Inr None
      else
        (case strptime_ym (fst (last series)) of
           Inl e \<Rightarrow> Inl e
         | Inr m \<Rightarrow>
             if raises_on m then Inl DateOutOfRange
             else Inr (Some \<lparr>fc_month = month_text (next_month_of m),
                             primary_model = ''seasonal_naive'',
                             primary_value =
                               Some (case map_of series (month_text (seasonal_of m)) of
                                       Some v \<Rightarrow> v | None \<Rightarrow> snd (last series)),
                             backstop_model = ''moving_average'',
                             backstop_value =
                               (if 3 \<le> length series
                                then Some (sum_list (map snd (drop (length series - 3) series)) / 3)
                                else None)\<rparr>)))"
proof (cases "series = []")
  case True
  then show ?thesis by (simp add: forecast_next_month_def)
next
  case ne: False
  have l: "last (map fst series) = fst (last series)" "last (map snd series) = snd (last series)"
    using ne by (simp_all add: last_map)
  show ?thesis
  proof (cases "strptime_ym (fst (last series))")
    case (Inl e)
    with ne show ?thesis by (simp add: forecast_next_month_def l Let_def)
  next
    case (Inr m)
    from strptime_ym_range [OF Inr]
    have r: "1 \<le> fst m" "fst m \<le> 9999" "1 \<le> snd m" "snd m \<le> 12" by simp_all
    note n = add_months_next [OF r]
    show ?thesis
    proof (cases "m = (9999, 12)")
      case True
      with ne Inr n show ?thesis
        by (simp add: forecast_next_month_def l Let_def raises_on_def)
    next
      case False
      note k = add_months_seasonal [OF r False]
      show ?thesis
      proof (cases "fst m = 1 \<and> snd m \<noteq> 12")
        case True
        with ne Inr n k False show ?thesis
          by (simp add: forecast_next_month_def l Let_def raises_on_def)
      next
        case ok: False
        then have nr: "\<not> raises_on m" using False by (simp add: raises_on_def)
        from ok k have k': "add_months (next_month_of m) (- 12) = Inr (seasonal_of m)" by simp
        from False n have n': "add_months m 1 = Inr (next_month_of m)" by simp
        show ?thesis
          using ne
          by (cases "map_of series (month_text (seasonal_of m))")
             (simp_all add: forecast_next_month_def l Inr n' k' nr Let_def drop_map month_text_def)
      qed
    qed
  qed
qed

theorem forecast_next_month_value_witness:
  "forecast_next_month three_months =
     Inr (Some \<lparr>fc_month = ''2024-04'', primary_model = ''seasonal_naive'', primary_value = Some 60,
                backstop_model = ''moving_average'', backstop_value = Some 30\<rparr>) \<and>
   forecast_next_month padded_months =
     Inr (Some \<lparr>fc_month = ''1000-02'', primary_model = ''seasonal_naive'', primary_value = Some 5,
                backstop_model = ''moving_average'', backstop_value = None\<rparr>) \<and>
   forecast_next_month [(''999-02'', 7)] = Inl DateOutOfRange \<and>
   forecast_next_month [(''0001-01'', 7)] = Inl DateOutOfRange"
proof (intro conjI)
  show "forecast_next_month three_months =
     Inr (Some \<lparr>fc_month = ''2024-04'', primary_model = ''seasonal_naive'', primary_value = Some 60,
                backstop_model = ''moving_average'', backstop_value = Some 30\<rparr>)"
    using forecast_next_month_value [of three_months]
    by (simp add: three_months_def month_parse_examples raises_on_def next_month_of_def
        seasonal_of_def month_text_def month_text_examples)
  show "forecast_next_month padded_months =
     Inr (Some \<lparr>fc_month = ''1000-02'', primary_model = ''seasonal_naive'', primary_value = Some 5,
                backstop_model = ''moving_average'', backstop_value = None\<rparr>)"
    using forecast_next_month_value [of padded_months]
    by (simp add: padded_months_def month_parse_examples raises_on_def next_month_of_def
        seasonal_of_def month_text_def month_text_examples del: One_nat_def)
  show "forecast_next_month [(''999-02'', 7)] = Inl DateOutOfRange"
    using forecast_next_month_value [of "[(''999-02'', 7)]"]
    by (simp add: month_parse_examples)
  show "forecast_next_month [(''0001-01'', 7)] = Inl DateOutOfRange"
    using forecast_next_month_value [of "[(''0001-01'', 7)]"]
    by (simp add: strptime_ym_def digit_of_def raises_on_def)
qed

section \<open>Rolling spikes\<close>

lemma mean_replicate: "0 < n \<Longrightarrow> mean (replicate n c) = c"
  by (simp add: mean_def sum_list_replicate)

lemma stdev_replicate: "stdev (replicate n c) = 0"
proof (cases "n = 0")
  case True
  then show ?thesis by (simp add: stdev_def)
next
  case False
  then have "mean (replicate n c) = c" by (simp add: mean_replicate)
  then show ?thesis by (simp add: stdev_def sum_list_replicate)
qed

lemma spike_at_rule:
  "spike_at cat week_map weeks idx =
     (if is_rolling_spike week_map weeks idx then [spike_entry cat week_map weeks idx] else [])"
  by (simp add: spike_at_def is_rolling_spike_def spike_entry_def week_history_def Let_def
      pct_change_def anomaly_z_threshold_def anomaly_week_delta_def not_less)

lemma concat_map_if: "concat (map (\<lambda>i. if P i then [f i] else []) xs) = map f (filter P xs)"
  by (induction xs) simp_all

lemma rolling_spikes_rule: "rolling_spikes cat week_map = flagged_weeks cat week_map"
proof -
  have "spike_at cat week_map weeks =
          (\<lambda>idx. if is_rolling_spike week_map weeks idx then [spike_entry cat week_map weeks idx]
                  else [])" for weeks
    by (rule ext) (rule spike_at_rule)
  then show ?thesis
    by (simp only: rolling_spikes_def flagged_weeks_def concat_map_if Let_def)
qed

lemma flagged_weeks_reason: "a \<in> set (flagged_weeks cat week_map) \<Longrightarrow> reason a = ''spike_vs_rolling''"
  by (auto simp: flagged_weeks_def spike_entry_def Let_def)

lemma single_day_spikes_reason: "a \<in> set (single_day_spikes rs) \<Longrightarrow> reason a = ''single_day_spike''"
  by (auto simp: single_day_spikes_def Let_def split: if_splits)

lemma duplicate_scan_reason: "a \<in> set (duplicate_scan seen rs) \<Longrightarrow> reason a = ''potential_duplicate''"
  by (induction rs arbitrary: seen) (auto simp: Let_def split: option.splits if_splits)

lemma filter_all: "(\<And>x. x \<in> set xs \<Longrightarrow> P x) \<Longrightarrow> filter P xs = xs"
  by (induction xs) simp_all

lemma filter_none: "(\<And>x. x \<in> set xs \<Longrightarrow> \<not> P x) \<Longrightarrow> filter P xs = []"
  by (induction xs) simp_all

lemma detect_anomalies_spikes:
  assumes "detect_anomalies rows = Inr out"
  shows "filter (\<lambda>a. reason a = ''spike_vs_rolling'') out =
           concat (map (\<lambda>cw. flagged_weeks (fst cw) (snd cw)) (weekly_category (filter is_spend rows)))"
proof (cases "filter is_spend rows = []")
  case True
  with assms show ?thesis by (auto simp: detect_anomalies_def weekly_category_def)
next
  case False
  let ?sp = "filter is_spend rows"
  let ?A = "concat (map (\<lambda>cw. flagged_weeks (fst cw) (snd cw)) (weekly_category ?sp))"
  let ?B = "single_day_spikes ?sp"
  let ?C = "duplicate_scan [] (sort_key (\<lambda>r. dt_instant (dt r)) ?sp)"
  from assms False have out: "out = ?A @ ?B @ ?C"
    by (auto simp: detect_anomalies_def Let_def rolling_spikes_rule split: if_splits)
  have a: "filter (\<lambda>a. reason a = ''spike_vs_rolling'') ?A = ?A"
    by (rule filter_all) (auto dest: flagged_weeks_reason)
  have b: "filter (\<lambda>a. reason a = ''spike_vs_rolling'') ?B = []"
    by (rule filter_none) (auto dest: single_day_spikes_reason)
  have c: "filter (\<lambda>a. reason a = ''spike_vs_rolling'') ?C = []"
    by (rule filter_none) (auto dest: duplicate_scan_reason)
  show ?thesis unfolding out by (simp only: filter_append a b c append_Nil2)
qed

lemma constant_history_skipped:
  "week_history week_map weeks idx = replicate n c \<Longrightarrow> \<not> is_rolling_spike week_map weeks idx"
  by (simp add: is_rolling_spike_def Let_def stdev_replicate)

text \<open>The six weekly transactions: no week is flagged, the transaction of 300 is.\<close>

lemma weekly_rows_fields:
  "map is_spend weekly_rows = [True, True, True, True, True, True]"
  "map category weekly_rows = replicate 6 ''groceries''"
  "map amount weekly_rows = [- 100, - 100, - 100, - 100, - 100, - 300]"
  "map week_key weekly_rows = [(2024, 1), (2024, 2), (2024, 3), (2024, 4), (2024, 5), (2024, 6)]"
  by (simp_all add: weekly_rows_def winsorised_def weekly_fields numeral_eq_Suc)

lemma weekly_category_weekly: "weekly_category weekly_rows = [(''groceries'', six_weeks)]"
  by (simp add: weekly_category_def weekly_rows_def winsorised_def weekly_fields six_weeks_def)

lemma history_six_weeks:
  "week_history six_weeks (sort (map fst six_weeks)) 5 = replicate 5 100"
  by (simp add: week_history_def six_weeks_def dict_get_def anomaly_window_weeks_def upt_rec
      numeral_eq_Suc)

lemma flagged_weeks_six: "flagged_weeks ''groceries'' six_weeks = []"
  unfolding rolling_spikes_rule [symmetric]
  by (simp add: six_weeks_def rolling_spikes_def spike_at_def anomaly_window_weeks_def dict_get_def
      stdev_def mean_def upt_rec Let_def)

lemma sqrt_100: "sqrt 100 = 10"
  using real_sqrt_abs [of 10] by simp

lemma flagged_weeks_four:
  "flagged_weeks ''groceries'' four_weeks =
     [\<lparr>anomaly_category = ''groceries'', anomaly_period = Week (2024, 4), anomaly_amount = 300,
       z = Some 20, reason = ''spike_vs_rolling'', anomaly_merchant = None\<rparr>]"
  unfolding rolling_spikes_rule [symmetric]
  by (simp add: four_weeks_def rolling_spikes_def spike_at_def anomaly_window_weeks_def
      dict_get_def stdev_def mean_def upt_rec Let_def sqrt_100 pct_change_def
      anomaly_z_threshold_def anomaly_week_delta_def)

lemma weekly_dt_fields:
  "dt_minute weekly_dt1 = 0" "dt_second weekly_dt1 = 0" "dt_micro weekly_dt1 = 0"
  "dt_minute weekly_dt2 = 0" "dt_second weekly_dt2 = 0" "dt_micro weekly_dt2 = 0"
  "dt_minute weekly_dt3 = 0" "dt_second weekly_dt3 = 0" "dt_micro weekly_dt3 = 0"
  "dt_minute weekly_dt4 = 0" "dt_second weekly_dt4 = 0" "dt_micro weekly_dt4 = 0"
  "dt_minute weekly_dt5 = 0" "dt_second weekly_dt5 = 0" "dt_micro weekly_dt5 = 0"
  "dt_minute weekly_dt6 = 0" "dt_second weekly_dt6 = 0" "dt_micro weekly_dt6 = 0"
  "dt_utcoffset weekly_dt1 = Some 0" "dt_utcoffset weekly_dt2 = Some 0"
  "dt_utcoffset weekly_dt3 = Some 0" "dt_utcoffset weekly_dt4 = Some 0"
  "dt_utcoffset weekly_dt5 = Some 0" "dt_utcoffset weekly_dt6 = Some 0"
  by (simp_all add: example_dt_defs)

lemma instant_weekly:
  "dt_instant weekly_dt1 = 63839707200000000" "dt_instant weekly_dt2 = 63840312000000000"
  "dt_instant weekly_dt3 = 63840916800000000" "dt_instant weekly_dt4 = 63841521600000000"
  "dt_instant weekly_dt5 = 63842126400000000" "dt_instant weekly_dt6 = 63842731200000000"
  by (simp_all add: dt_instant_def dt_local_us_def ord_examples fields_examples weekly_dt_fields)

lemma weekly_more_fields:
  "merchant_normalised weekly_row1 = ''tesco''" "merchant_normalised weekly_row2 = ''tesco''"
  "merchant_normalised weekly_row3 = ''tesco''" "merchant_normalised weekly_row4 = ''tesco''"
  "merchant_normalised weekly_row5 = ''tesco''" "merchant_normalised weekly_row6 = ''tesco''"
  "merchant weekly_row6 = ''Tesco''" "ts weekly_row6 = ''2024-02-05T12:00:00Z''"
  "dt weekly_row1 = weekly_dt1" "dt weekly_row2 = weekly_dt2" "dt weekly_row3 = weekly_dt3"
  "dt weekly_row4 = weekly_dt4" "dt weekly_row5 = weekly_dt5" "dt weekly_row6 = weekly_dt6"
  by (simp_all add: weekly_row1_def weekly_row2_def weekly_row3_def weekly_row4_def
      weekly_row5_def weekly_row6_def)

lemma py_round2_examples: "py_round2 (- 100) = - 100" "py_round2 (- 300) = - 300"
  by (simp_all add: py_round2_def py_round_def Let_def)

lemma single_day_spikes_weekly: "single_day_spikes weekly_rows = [weekly_spike]"
  by (simp add: single_day_spikes_def weekly_rows_def winsorised_def weekly_fields
      weekly_more_fields RENT_CATEGORIES_def percentile_weekly weekly_spike_def Let_def)

lemma duplicate_scan_weekly:
  "duplicate_scan [] (sort_key (\<lambda>r. dt_instant (dt r)) weekly_rows) = []"
  by (simp add: weekly_rows_def winsorised_def instant_weekly weekly_fields weekly_more_fields
      py_round2_examples dict_set_def Let_def)

lemma detect_anomalies_weekly: "detect_anomalies weekly_rows = Inr [weekly_spike]"
proof -
  have f: "filter is_spend weekly_rows = weekly_rows"
    by (simp add: weekly_rows_def winsorised_def weekly_fields)
  have n: "weekly_rows \<noteq> []" by (simp add: weekly_rows_def)
  have t: "tz_consistent (map dt weekly_rows)"
    by (simp add: tz_consistent_def weekly_rows_def winsorised_def weekly_more_fields
        weekly_dt_fields)
  show ?thesis
    by (simp add: detect_anomalies_def f n t weekly_category_weekly rolling_spikes_rule
        flagged_weeks_six single_day_spikes_weekly duplicate_scan_weekly)
qed

text \<open>
  Claim C1, as stated, fails. Six grocery transactions, one in each of six consecutive ISO
  weeks, of 100, 100, 100, 100, 100 and 300, are accepted by the pre-processing and give
  the weekly totals 100, 100, 100, 100, 100, 300 of the category. The anomaly detector
  reports one anomaly for them, the transaction of 300 as \<open>single_day_spike\<close>: it reports
  no week with reason \<open>spike_vs_rolling\<close>. The history of the last week is five times
  100, its standard deviation is zero, and the loop skips such a week before any z-score is
  computed.
\<close>

theorem spike_missed_counterexample:
  "preprocess example_lib weekly_batch [0, 1, 2, 3, 4, 5] =
     (Inr [6, 7, 8, 9, 10, 11], weekly_batch @ map Row weekly_rows) \<and>
   rows_of (weekly_batch @ map Row weekly_rows) [6, 7, 8, 9, 10, 11] = weekly_rows \<and>
   weekly_category (filter is_spend weekly_rows) = [(''groceries'', six_weeks)] \<and>
   detect_anomalies weekly_rows = Inr [weekly_spike] \<and>
   reason weekly_spike = ''single_day_spike''"
proof -
  have "filter is_spend weekly_rows = weekly_rows"
    by (simp add: weekly_rows_def winsorised_def weekly_fields)
  then have "weekly_category (filter is_spend weekly_rows) = [(''groceries'', six_weeks)]"
    by (simp only: weekly_category_weekly)
  moreover have "reason weekly_spike = ''single_day_spike''" by (simp add: weekly_spike_def)
  ultimately show ?thesis
    using preprocess_weekly rows_of_weekly detect_anomalies_weekly by (intro conjI)
qed

text \<open>
  Claim C1, amended. For each category the anomaly detector reports with reason
  \<open>spike_vs_rolling\<close> exactly the weeks, from the second week of the category on and in
  week order, that satisfy all of: the history (the totals of the up to six weeks of the
  category before it) has at least two weeks and a standard deviation other than zero; the
  z-score of the week's total against the mean and standard deviation of the history
  exceeds 2; and the previous week's total is not zero and the total rose over it by more
  than 0.30 of it. The entry gives the category, the week, its total and the z-score. A
  week whose history is constant is never flagged: for the weekly totals 100, 100, 100,
  100, 100, 300 no week is reported as \<open>spike_vs_rolling\<close> (the transaction of 300 is
  reported, as \<open>single_day_spike\<close>), while for 90, 100, 110, 300 the last week is, with
  z-score 20.
\<close>

theorem rolling_spike_rule:
  "rolling_spikes cat week_map = flagged_weeks cat week_map \<and>
   (detect_anomalies rows = Inr out \<longrightarrow>
      filter (\<lambda>a. reason a = ''spike_vs_rolling'') out =
        concat (map (\<lambda>cw. flagged_weeks (fst cw) (snd cw))
                    (weekly_category (filter is_spend rows)))) \<and>
   (week_history week_map weeks idx = replicate n c \<longrightarrow>
      \<not> is_rolling_spike week_map weeks idx)"
  using rolling_spikes_rule detect_anomalies_spikes constant_history_skipped
  by (intro conjI impI)

theorem rolling_spike_rule_witness:
  "rolling_spikes ''groceries'' four_weeks =
     [\<lparr>anomaly_category = ''groceries'', anomaly_period = Week (2024, 4), anomaly_amount = 300,
       z = Some 20, reason = ''spike_vs_rolling'', anomaly_merchant = None\<rparr>] \<and>
   rolling_spikes ''groceries'' six_weeks = [] \<and>
   detect_anomalies weekly_rows = Inr [weekly_spike] \<and>
   filter (\<lambda>a. reason a = ''spike_vs_rolling'') [weekly_spike] = [] \<and>
   week_history six_weeks (sort (map fst six_weeks)) 5 = replicate 5 100 \<and>
   \<not> is_rolling_spike six_weeks (sort (map fst six_weeks)) 5"
proof -
  note r4 = rolling_spike_rule [of "''groceries''" four_weeks weekly_rows "[weekly_spike]"
      "sort (map fst six_weeks)" 5 5 100]
  note r6 = rolling_spike_rule [of "''groceries''" six_weeks weekly_rows "[weekly_spike]"
      "sort (map fst six_weeks)" 5 5 100]
  from r4 have "rolling_spikes ''groceries'' four_weeks = flagged_weeks ''groceries'' four_weeks"
    by (rule conjunct1)
  then have a: "rolling_spikes ''groceries'' four_weeks =
     [\<lparr>anomaly_category = ''groceries'', anomaly_period = Week (2024, 4), anomaly_amount = 300,
       z = Some 20, reason = ''spike_vs_rolling'', anomaly_merchant = None\<rparr>]"
    by (simp only: flagged_weeks_four)
  from r6 have "rolling_spikes ''groceries'' six_weeks = flagged_weeks ''groceries'' six_weeks"
    by (rule conjunct1)
  then have b: "rolling_spikes ''groceries'' six_weeks = []"
    by (simp only: flagged_weeks_six)
  from r6 have "detect_anomalies weekly_rows = Inr [weekly_spike] \<longrightarrow>
      filter (\<lambda>a. reason a = ''spike_vs_rolling'') [weekly_spike] =
        concat (map (\<lambda>cw. flagged_weeks (fst cw) (snd cw))
                    (weekly_category (filter is_spend weekly_rows)))"
    by (elim conjE)
  then have "filter (\<lambda>a. reason a = ''spike_vs_rolling'') [weekly_spike] =
        concat (map (\<lambda>cw. flagged_weeks (fst cw) (snd cw))
                    (weekly_category (filter is_spend weekly_rows)))"
    using detect_anomalies_weekly by (rule mp)
  moreover have "filter is_spend weekly_rows = weekly_rows"
    by (simp add: weekly_rows_def winsorised_def weekly_fields)
  ultimately have c: "filter (\<lambda>a. reason a = ''spike_vs_rolling'') [weekly_spike] = []"
    by (simp add: weekly_category_weekly flagged_weeks_six)
  from r6 have "week_history six_weeks (sort (map fst six_weeks)) 5 = replicate 5 100 \<longrightarrow>
      \<not> is_rolling_spike six_weeks (sort (map fst six_weeks)) 5"
    by (elim conjE)
  then have d: "\<not> is_rolling_spike six_weeks (sort (map fst six_weeks)) 5"
    using history_six_weeks by (rule mp)
  from a b detect_anomalies_weekly c history_six_weeks d show ?thesis by (intro conjI)
qed

end
